theory Spec2Isabelle
  imports Complex_Main "HOL-Library.Sublist" "HOL-Library.AList"
begin

section \<open>Python values and exceptions\<close>

text \<open>
  The program of \<^verbatim>\<open>crazier.py\<close> works on what \<^verbatim>\<open>response.json()\<close> returns and on
  dictionaries it builds itself: \<^verbatim>\<open>None\<close>, booleans, integers, floats, strings, lists and
  dictionaries with string keys. A dictionary is an association list in insertion order (the
  order \<^verbatim>\<open>items()\<close> iterates in); its keys are distinct in Python, and a lookup reads the
  first entry of a key. A string is a list of characters, one \<^typ>\<open>char\<close> per Python character,
  so the model covers text in the range of code points 0 to 255. Floats are kept as rationals:
  the program only tests them for truth and fails on every other use this model describes.
\<close>

datatype pyval =
    PNone
  | PBool bool
  | PInt int
  | PFloat rat
  | PStr string
  | PList "pyval list"
  | PDict "(string \<times> pyval) list"

text \<open>
  The exception classes the program can meet. \<open>RequestException\<close> stands for the class
  \<^verbatim>\<open>requests.exceptions.RequestException\<close> and all its subclasses (connection errors,
  timeouts, \<^verbatim>\<open>HTTPError\<close>); \<open>OtherException\<close> for an exception of \<^verbatim>\<open>Exception\<close> that is
  none of the others.
\<close>

datatype exn =
    AttributeError
  | TypeError
  | KeyError
  | IndexError
  | ValueError
  | RequestException
  | OtherException

text \<open>Truth value testing, \<^verbatim>\<open>if x\<close> and \<^verbatim>\<open>not x\<close>.\<close>

fun truthy :: "pyval \<Rightarrow> bool" where
  "truthy PNone = False"
| "truthy (PBool b) = b"
| "truthy (PInt n) = (n \<noteq> 0)"
| "truthy (PFloat r) = (r \<noteq> 0)"
| "truthy (PStr s) = (s \<noteq> [])"
| "truthy (PList xs) = (xs \<noteq> [])"
| "truthy (PDict kvs) = (kvs \<noteq> [])"

text \<open>\<^verbatim>\<open>a in b\<close> on two strings: \<open>a\<close> occurs in \<open>b\<close> as a contiguous run.\<close>

fun str_in :: "string \<Rightarrow> string \<Rightarrow> bool" where
  "str_in a [] = (a = [])"
| "str_in a (c # cs) = (prefix a (c # cs) \<or> str_in a cs)"

text \<open>\<^verbatim>\<open>k in x\<close> for a string \<open>k\<close>: key membership in a dictionary, element membership in a
  list, substring test in a string, \<^verbatim>\<open>TypeError\<close> on everything else.\<close>

fun py_contains :: "string \<Rightarrow> pyval \<Rightarrow> exn + bool" where
  "py_contains k (PDict kvs) = Inr (map_of kvs k \<noteq> None)"
| "py_contains k (PList xs) = Inr (List.member xs (PStr k))"
| "py_contains k (PStr s) = Inr (str_in k s)"
| "py_contains k PNone = Inl TypeError"
| "py_contains k (PBool b) = Inl TypeError"
| "py_contains k (PInt n) = Inl TypeError"
| "py_contains k (PFloat r) = Inl TypeError"

text \<open>\<^verbatim>\<open>x.get(k, default)\<close>: only a dictionary has the method.\<close>

fun py_get :: "pyval \<Rightarrow> string \<Rightarrow> pyval \<Rightarrow> exn + pyval" where
  "py_get (PDict kvs) k dflt = Inr (case map_of kvs k of None \<Rightarrow> dflt | Some v \<Rightarrow> v)"
| "py_get PNone k dflt = Inl AttributeError"
| "py_get (PBool b) k dflt = Inl AttributeError"
| "py_get (PInt n) k dflt = Inl AttributeError"
| "py_get (PFloat r) k dflt = Inl AttributeError"
| "py_get (PStr s) k dflt = Inl AttributeError"
| "py_get (PList xs) k dflt = Inl AttributeError"

text \<open>\<^verbatim>\<open>x[k]\<close> with a string \<open>k\<close>.\<close>

fun py_getitem :: "pyval \<Rightarrow> string \<Rightarrow> exn + pyval" where
  "py_getitem (PDict kvs) k = (case map_of kvs k of None \<Rightarrow> Inl KeyError | Some v \<Rightarrow> Inr v)"
| "py_getitem PNone k = Inl TypeError"
| "py_getitem (PBool b) k = Inl TypeError"
| "py_getitem (PInt n) k = Inl TypeError"
| "py_getitem (PFloat r) k = Inl TypeError"
| "py_getitem (PStr s) k = Inl TypeError"
| "py_getitem (PList xs) k = Inl TypeError"

text \<open>\<^verbatim>\<open>x[i]\<close> with a non-negative integer \<open>i\<close> (the index \<^verbatim>\<open>enumerate\<close> counts). No
  dictionary of this program has an integer key.\<close>

fun py_index :: "pyval \<Rightarrow> nat \<Rightarrow> exn + pyval" where
  "py_index (PList xs) i = (if i < length xs then Inr (xs ! i) else Inl IndexError)"
| "py_index (PStr s) i = (if i < length s then Inr (PStr [s ! i]) else Inl IndexError)"
| "py_index (PDict kvs) i = Inl KeyError"
| "py_index PNone i = Inl TypeError"
| "py_index (PBool b) i = Inl TypeError"
| "py_index (PInt n) i = Inl TypeError"
| "py_index (PFloat r) i = Inl TypeError"

text \<open>\<^verbatim>\<open>len(x)\<close>.\<close>

fun py_len :: "pyval \<Rightarrow> exn + nat" where
  "py_len (PStr s) = Inr (length s)"
| "py_len (PList xs) = Inr (length xs)"
| "py_len (PDict kvs) = Inr (length kvs)"
| "py_len PNone = Inl TypeError"
| "py_len (PBool b) = Inl TypeError"
| "py_len (PInt n) = Inl TypeError"
| "py_len (PFloat r) = Inl TypeError"

text \<open>Iteration, \<^verbatim>\<open>for x in v\<close>: the elements of a list, the characters of a string, the
  keys of a dictionary.\<close>

fun py_iter :: "pyval \<Rightarrow> exn + pyval list" where
  "py_iter (PList xs) = Inr xs"
| "py_iter (PStr s) = Inr (map (\<lambda>c. PStr [c]) s)"
| "py_iter (PDict kvs) = Inr (map (\<lambda>kv. PStr (fst kv)) kvs)"
| "py_iter PNone = Inl TypeError"
| "py_iter (PBool b) = Inl TypeError"
| "py_iter (PInt n) = Inl TypeError"
| "py_iter (PFloat r) = Inl TypeError"

section \<open>Strings\<close>

definition is_digit :: "char \<Rightarrow> bool" where
  "is_digit c = (48 \<le> (of_char c :: nat) \<and> (of_char c :: nat) \<le> 57)"

definition digit_char :: "nat \<Rightarrow> char" where
  "digit_char n = char_of (48 + n)"

fun nat_digits :: "nat \<Rightarrow> string" where
  "nat_digits n = (if n < 10 then [digit_char n] else nat_digits (n div 10) @ [digit_char (n mod 10)])"

declare nat_digits.simps [simp del]

text \<open>\<^verbatim>\<open>str(n)\<close> of an integer.\<close>

definition str_of_int :: "int \<Rightarrow> string" where
  "str_of_int i = (if i < 0 then CHR ''-'' # nat_digits (nat (- i)) else nat_digits (nat i))"

text \<open>
  \<^verbatim>\<open>str(x)\<close>, also what an f-string writes for \<^verbatim>\<open>{x}\<close>. The text Python writes for a
  float, a list or a dictionary is not spelled out here: it is the parameter \<open>repr\<close>.
\<close>

fun py_str :: "(pyval \<Rightarrow> string) \<Rightarrow> pyval \<Rightarrow> string" where
  "py_str repr (PStr s) = s"
| "py_str repr PNone = ''None''"
| "py_str repr (PBool b) = (if b then ''True'' else ''False'')"
| "py_str repr (PInt n) = str_of_int n"
| "py_str repr (PFloat r) = repr (PFloat r)"
| "py_str repr (PList xs) = repr (PList xs)"
| "py_str repr (PDict kvs) = repr (PDict kvs)"

text \<open>\<^verbatim>\<open>s.lower()\<close> on code points below 256: the ASCII capitals and the Latin-1 capitals
  (U+00C0 to U+00DE without the multiplication sign U+00D7) move up by 32.\<close>

definition lower_char :: "char \<Rightarrow> char" where
  "lower_char c =
     (let n = (of_char c :: nat)
      in if (65 \<le> n \<and> n \<le> 90) \<or> (192 \<le> n \<and> n \<le> 222 \<and> n \<noteq> 215) then char_of (n + 32) else c)"

definition py_lower :: "string \<Rightarrow> string" where
  "py_lower s = map lower_char s"

text \<open>\<^verbatim>\<open>s.zfill(w)\<close>: zeros on the left up to width \<open>w\<close>, after a leading sign.\<close>

definition py_zfill :: "nat \<Rightarrow> string \<Rightarrow> string" where
  "py_zfill w s =
     (if w \<le> length s then s
      else case s of
        c # cs \<Rightarrow>
          (if c = CHR ''+'' \<or> c = CHR ''-'' then c # replicate (w - length s) CHR ''0'' @ cs
           else replicate (w - length s) CHR ''0'' @ s)
      | [] \<Rightarrow> replicate w CHR ''0'')"

text \<open>\<^verbatim>\<open>s.replace('-', '')\<close>.\<close>

definition remove_dashes :: "string \<Rightarrow> string" where
  "remove_dashes s = filter (\<lambda>c. c \<noteq> CHR ''-'') s"

text \<open>\<^verbatim>\<open>s.endswith(t)\<close>.\<close>

definition py_endswith :: "string \<Rightarrow> string \<Rightarrow> bool" where
  "py_endswith s t = suffix t s"

text \<open>
  \<^verbatim>\<open>int(s)\<close> of a string: white space is skipped at both ends, one sign may lead, and the
  rest is decimal digits, where single underscores may stand between two digits. Everything
  else is a \<^verbatim>\<open>ValueError\<close>. The white space \<^verbatim>\<open>int\<close> skips is the tab, the line feed, the
  vertical tab, the form feed, the carriage return and the space, and of the characters from
  128 on the next-line character 133 and the no-break space 160; the separators 28 to 31,
  which \<^verbatim>\<open>str.strip\<close> removes, are not skipped.

  The interpreter may cap the number of digits of such a conversion
  (\<^verbatim>\<open>sys.get_int_max_str_digits()\<close>, 4300 by default since Python 3.11, 0 for no cap, and
  never applied to 640 digits or fewer): the cap is the parameter \<open>max_str_digits\<close>. The
  digits counted are those of the literal, leading zeros included, without sign and
  underscores.
\<close>

definition is_space :: "char \<Rightarrow> bool" where
  "is_space c =
     (let n = (of_char c :: nat)
      in (9 \<le> n \<and> n \<le> 13) \<or> n = 32 \<or> n = 133 \<or> n = 160)"

definition py_strip :: "string \<Rightarrow> string" where
  "py_strip s = rev (dropWhile is_space (rev (dropWhile is_space s)))"

fun int_body :: "string \<Rightarrow> bool" where
  "int_body [] = False"
| "int_body [c] = is_digit c"
| "int_body (c # d # cs) = (is_digit c \<and> (if d = CHR ''_'' then int_body cs else int_body (d # cs)))"

definition digits_value :: "string \<Rightarrow> nat" where
  "digits_value s = foldl (\<lambda>acc c. 10 * acc + ((of_char c :: nat) - 48)) 0 (filter is_digit s)"

definition py_int :: "nat \<Rightarrow> string \<Rightarrow> exn + int" where
  "py_int max_str_digits s =
     (let t = py_strip s;
          neg = (t \<noteq> [] \<and> hd t = CHR ''-'');
          body = (if t \<noteq> [] \<and> (hd t = CHR ''-'' \<or> hd t = CHR ''+'') then tl t else t);
          digits = length (filter is_digit body)
      in if int_body body \<and> \<not> (0 < max_str_digits \<and> 640 < digits \<and> max_str_digits < digits)
         then Inr (if neg then - int (digits_value body) else int (digits_value body))
         else Inl ValueError)"

section \<open>The industry classifier\<close>

text \<open>The dictionary \<^verbatim>\<open>self.sic_mapping\<close>.\<close>

definition sic_mapping :: "(string \<times> string) list" where
  "sic_mapping =
     [(''5812'', ''Eating Places/Restaurants''),
      (''7372'', ''Prepackaged Software''),
      (''3571'', ''Electronic Computers''),
      (''7373'', ''Computer Integrated Systems Design''),
      (''3674'', ''Semiconductors & Related Devices''),
      (''6211'', ''Security Brokers & Dealers''),
      (''2834'', ''Pharmaceutical Preparations''),
      (''3711'', ''Motor Vehicles & Car Bodies''),
      (''4813'', ''Telephone Communications''),
      (''1311'', ''Crude Petroleum & Natural Gas''),
      (''2911'', ''Petroleum Refining''),
      (''5961'', ''Catalog & Mail-Order Houses''),
      (''7370'', ''Computer Programming & Data Processing''),
      (''8742'', ''Management Consulting Services''),
      (''2080'', ''Beverages''),
      (''3577'', ''Computer Peripheral Equipment''),
      (''6141'', ''Personal Credit Institutions''),
      (''4899'', ''Communications Services''),
      (''7371'', ''Computer Programming Services''),
      (''7389'', ''Business Services, NEC'')]"

text \<open>The dictionary \<^verbatim>\<open>industry_keywords\<close> of \<^verbatim>\<open>classify_industry_from_name\<close>, in the order
  the loop visits it.\<close>

definition industry_keywords :: "(string \<times> string list) list" where
  "industry_keywords =
     [(''Technology'',
        [''software'', ''tech'', ''systems'', ''data'', ''cloud'', ''cyber'', ''digital'',
         ''computer'', ''platform'', ''analytics'', ''ai'', ''artificial intelligence'',
         ''app'', ''mobile'', ''web'', ''internet'', ''online'']),
      (''Financial Services'',
        [''bank'', ''financial'', ''capital'', ''investment'', ''fund'', ''credit'',
         ''loan'', ''mortgage'', ''insurance'', ''securities'', ''finance'']),
      (''Healthcare'',
        [''pharma'', ''medical'', ''health'', ''bio'', ''therapeutic'', ''clinical'',
         ''hospital'', ''drug'', ''medicine'', ''healthcare'']),
      (''Retail'',
        [''retail'', ''store'', ''shop'', ''market'', ''grocery'', ''consumer'', ''commerce'']),
      (''Energy'',
        [''energy'', ''oil'', ''gas'', ''petroleum'', ''solar'', ''wind'', ''utility'',
         ''electric'', ''power'', ''renewable'']),
      (''Manufacturing'',
        [''manufacturing'', ''industrial'', ''auto'', ''motor'', ''machinery'',
         ''equipment'', ''materials'', ''production'']),
      (''Food & Beverage'',
        [''food'', ''restaurant'', ''coffee'', ''beverage'', ''dining'', ''kitchen'',
         ''cafe'', ''bar'', ''brewery'', ''wine'']),
      (''Real Estate'',
        [''real estate'', ''property'', ''construction'', ''building'', ''development'']),
      (''Transportation'',
        [''transport'', ''logistics'', ''shipping'', ''delivery'', ''freight'']),
      (''Media'',
        [''media'', ''entertainment'', ''publishing'', ''content'', ''broadcast'', ''film''])]"

text \<open>\<^verbatim>\<open>classify_industry_from_name\<close> returns the pair of \<^verbatim>\<open>industry_category\<close> and
  \<^verbatim>\<open>confidence\<close>: the first category, in table order, one of whose keywords occurs in the
  lower-cased name. The name comes out of a candidate; only a string has \<^verbatim>\<open>lower\<close>.\<close>

definition classify_industry_from_name :: "pyval \<Rightarrow> exn + string \<times> string" where
  "classify_industry_from_name company_name =
     (case company_name of
        PStr s \<Rightarrow>
          (let name_lower = py_lower s
           in case find (\<lambda>entry. list_ex (\<lambda>keyword. str_in keyword name_lower) (snd entry))
                     industry_keywords of
                Some entry \<Rightarrow> Inr (fst entry, ''medium'')
              | None \<Rightarrow> Inr (''Unknown'', ''low''))
      | _ \<Rightarrow> Inl AttributeError)"

text \<open>
  The dictionary \<^verbatim>\<open>industry_info\<close> of \<^verbatim>\<open>extract_comprehensive_industry_info\<close>. Its seven keys
  are always there; the key \<^verbatim>\<open>confidence\<close> exists only after the update with the name
  classification.
\<close>

record industry_info =
  sic_code :: pyval
  sic_description :: pyval
  business_description :: pyval
  industry_category :: pyval
  company_type :: pyval
  form_d_info :: pyval
  source :: string
  confidence :: "string option"

definition initial_info :: industry_info where
  "initial_info =
     \<lparr> sic_code = PNone, sic_description = PNone, business_description = PNone,
       industry_category = PNone, company_type = PNone, form_d_info = PNone,
       source = ''submissions'', confidence = None \<rparr>"

text \<open>
  The body of the \<^verbatim>\<open>try\<close> block is a sequence of five steps on the dictionary. A step
  returns the dictionary as it has mutated it, together with the exception it raised, if any.
\<close>

type_synonym step = "industry_info \<Rightarrow> exn option \<times> industry_info"

definition and_then :: "exn option \<times> industry_info \<Rightarrow> step \<Rightarrow> exn option \<times> industry_info" where
  "and_then r f = (case fst r of Some e \<Rightarrow> r | None \<Rightarrow> f (snd r))"

text \<open>Lines 249 to 252: the company type.\<close>

definition set_company_type :: "pyval \<Rightarrow> step" where
  "set_company_type submissions_data info =
     (case py_get submissions_data ''tickers'' PNone of
        Inl e \<Rightarrow> (Some e, info)
      | Inr tickers \<Rightarrow>
          (None, info\<lparr>company_type := PStr (if truthy tickers then ''public'' else ''private'')\<rparr>))"

text \<open>Lines 255 to 259: the SIC code and its description.\<close>

definition sic_description_of :: "(pyval \<Rightarrow> string) \<Rightarrow> pyval \<Rightarrow> string" where
  "sic_description_of repr sic =
     (case map_of sic_mapping (py_str repr sic) of
        Some d \<Rightarrow> d
      | None \<Rightarrow> ''SIC '' @ py_str repr sic)"

definition extract_sic :: "(pyval \<Rightarrow> string) \<Rightarrow> pyval \<Rightarrow> step" where
  "extract_sic repr submissions_data info =
     (case py_contains ''sic'' submissions_data of
        Inl e \<Rightarrow> (Some e, info)
      | Inr False \<Rightarrow> (None, info)
      | Inr True \<Rightarrow>
          (case py_getitem submissions_data ''sic'' of
             Inl e \<Rightarrow> (Some e, info)
           | Inr sic \<Rightarrow>
               (if truthy sic
                then (None, info\<lparr>sic_code := sic, sic_description := PStr (sic_description_of repr sic)\<rparr>)
                else (None, info))))"

text \<open>Lines 262 to 266: the business description. \<^verbatim>\<open>desc[:300] + "..."\<close> is defined on a
  string only: a list cannot be added to a string and a dictionary cannot be sliced.\<close>

definition ellipsis :: string where
  "ellipsis = ''...''"

fun truncate_desc :: "pyval \<Rightarrow> exn + pyval" where
  "truncate_desc (PStr s) = Inr (PStr (take 300 s @ ellipsis))"
| "truncate_desc (PList xs) = Inl TypeError"
| "truncate_desc (PDict kvs) = Inl TypeError"
| "truncate_desc PNone = Inl TypeError"
| "truncate_desc (PBool b) = Inl TypeError"
| "truncate_desc (PInt n) = Inl TypeError"
| "truncate_desc (PFloat r) = Inl TypeError"

definition extract_description :: "pyval \<Rightarrow> step" where
  "extract_description submissions_data info =
     (case py_contains ''businessDescription'' submissions_data of
        Inl e \<Rightarrow> (Some e, info)
      | Inr False \<Rightarrow> (None, info)
      | Inr True \<Rightarrow>
          (case py_getitem submissions_data ''businessDescription'' of
             Inl e \<Rightarrow> (Some e, info)
           | Inr desc \<Rightarrow>
               (case py_len desc of
                  Inl e \<Rightarrow> (Some e, info)
                | Inr n \<Rightarrow>
                    (if n > 300
                     then (case truncate_desc desc of
                             Inl e \<Rightarrow> (Some e, info)
                           | Inr desc' \<Rightarrow> (None, info\<lparr>business_description := desc'\<rparr>))
                     else (None, info\<lparr>business_description := desc\<rparr>)))))"

text \<open>Lines 269 to 272: the Form D information. The record is attached before its
  \<^verbatim>\<open>get\<close> method is called, so it stays attached when the call raises.\<close>

definition extract_form_d :: "pyval \<Rightarrow> step" where
  "extract_form_d submissions_data info =
     (case py_contains ''form_d_info'' submissions_data of
        Inl e \<Rightarrow> (Some e, info)
      | Inr False \<Rightarrow> (None, info)
      | Inr True \<Rightarrow>
          (case py_getitem submissions_data ''form_d_info'' of
             Inl e \<Rightarrow> (Some e, info)
           | Inr fd \<Rightarrow>
               (let info1 = info\<lparr>form_d_info := fd\<rparr>
                in case py_get fd ''industry_category'' PNone of
                     Inl e \<Rightarrow> (Some e, info1)
                   | Inr cat \<Rightarrow>
                       (if truthy cat
                        then (case py_getitem fd ''industry_category'' of
                                Inl e \<Rightarrow> (Some e, info1)
                              | Inr cat' \<Rightarrow> (None, info1\<lparr>industry_category := cat'\<rparr>))
                        else (None, info1)))))"

text \<open>Lines 275 to 278: the fallback to the classification by name.\<close>

definition name_fallback :: "pyval \<Rightarrow> step" where
  "name_fallback company_name info =
     (if \<not> (truthy (sic_code info) \<or> truthy (industry_category info)
             \<or> truthy (business_description info))
      then (case classify_industry_from_name company_name of
              Inl e \<Rightarrow> (Some e, info)
            | Inr name_classification \<Rightarrow>
                (None, info\<lparr>industry_category := PStr (fst name_classification),
                             confidence := Some (snd name_classification),
                             source := ''name_classification''\<rparr>))
      else (None, info))"

text \<open>The \<^verbatim>\<open>try\<close> block: the four steps before the fallback, then the fallback. The
  \<^verbatim>\<open>except\<close> clause of the function prints, and the dictionary is returned as it is at that
  moment.\<close>

definition before_fallback :: "(pyval \<Rightarrow> string) \<Rightarrow> pyval \<Rightarrow> exn option \<times> industry_info" where
  "before_fallback repr submissions_data =
     and_then (and_then (and_then
       (set_company_type submissions_data initial_info)
       (extract_sic repr submissions_data))
       (extract_description submissions_data))
       (extract_form_d submissions_data)"

definition extract_try :: "(pyval \<Rightarrow> string) \<Rightarrow> pyval \<Rightarrow> pyval \<Rightarrow> exn option \<times> industry_info" where
  "extract_try repr submissions_data company_name =
     and_then (before_fallback repr submissions_data) (name_fallback company_name)"

definition extract_comprehensive_industry_info :: "(pyval \<Rightarrow> string) \<Rightarrow> pyval \<Rightarrow> pyval \<Rightarrow> industry_info" where
  "extract_comprehensive_industry_info repr submissions_data company_name =
     snd (extract_try repr submissions_data company_name)"


section \<open>The network\<close>

text \<open>
  What \<^verbatim>\<open>requests.get\<close> gives back: an exception or a response. A response carries its
  status code, its text and what its \<^verbatim>\<open>json()\<close> method does (returns a value or raises).
  The world answers a request for a URL given the URLs requested before it, in order, so
  two requests for one URL may be answered differently. Every function that talks to the
  network takes the list of requests made so far and returns it extended. The world also
  holds the one setting of the interpreter the program depends on, the cap on the digits of
  an integer conversion.
\<close>

record response =
  status_code :: int
  body_text :: string
  json_result :: "exn + pyval"

record world =
  http :: "string list \<Rightarrow> string \<Rightarrow> exn + response"
  int_max_str_digits :: nat

section \<open>The Form D parser\<close>

text \<open>The dictionary \<^verbatim>\<open>industry_info\<close> of \<^verbatim>\<open>parse_form_d_filing\<close> as it starts.\<close>

definition empty_form_d_items :: "(string \<times> pyval) list" where
  "empty_form_d_items =
     [(''industry_category'', PNone), (''business_description'', PNone),
      (''revenue_range'', PNone), (''offering_amount'', PNone)]"

definition empty_form_d :: pyval where
  "empty_form_d = PDict empty_form_d_items"

text \<open>\<^verbatim>\<open>d[k] = v\<close> on a dictionary: an existing key keeps its place, a new one goes last.\<close>

fun py_setitem :: "pyval \<Rightarrow> string \<Rightarrow> pyval \<Rightarrow> exn + pyval" where
  "py_setitem (PDict kvs) k v = Inr (PDict (AList.update k v kvs))"
| "py_setitem PNone k v = Inl TypeError"
| "py_setitem (PBool b) k v = Inl TypeError"
| "py_setitem (PInt n) k v = Inl TypeError"
| "py_setitem (PFloat r) k v = Inl TypeError"
| "py_setitem (PStr s) k v = Inl TypeError"
| "py_setitem (PList xs) k v = Inl TypeError"

text \<open>Lines 169 to 177. \<^verbatim>\<open>acc_clean\<close> is computed and then not used: the three URLs are
  built from \<^verbatim>\<open>accession_number\<close> itself. Only a string has \<^verbatim>\<open>replace\<close>.\<close>

definition possible_urls :: "nat \<Rightarrow> string \<Rightarrow> pyval \<Rightarrow> exn + string list" where
  "possible_urls max_str_digits cik accession_number =
     (case py_int max_str_digits cik of
        Inl e \<Rightarrow> Inl e
      | Inr n \<Rightarrow>
          (let cik_no_zeros = str_of_int n
           in case accession_number of
                PStr acc \<Rightarrow>
                  (let acc_clean = remove_dashes acc;
                       dir = ''https://www.sec.gov/Archives/edgar/data/'' @ cik_no_zeros @ ''/'' @ acc
                   in Inr [dir @ ''/xslFormDX01/primary_doc.xml'',
                           dir @ ''/primary_doc.xml'',
                           dir @ ''.txt''])
              | _ \<Rightarrow> Inl AttributeError))"

text \<open>Lines 187 to 192: the industry keywords, the first that occurs wins.\<close>

definition detect_industry :: "string \<Rightarrow> (string \<times> pyval) list \<Rightarrow> (string \<times> pyval) list" where
  "detect_industry content info =
     (if str_in ''Technology'' content
      then AList.update ''industry_category'' (PStr ''Technology'') info
      else if str_in ''Financial'' content \<or> str_in ''Banking'' content
      then AList.update ''industry_category'' (PStr ''Financial Services'') info
      else if str_in ''Health'' content \<or> str_in ''Medical'' content
      then AList.update ''industry_category'' (PStr ''Healthcare'') info
      else info)"

text \<open>
  Line 196, \<^verbatim>\<open>re.search(r'Total Offering Amount.*?\$([0-9,]+)', content)\<close>. The search
  tries every start position from the left. After the label, \<^verbatim>\<open>.*?\<close> takes as few
  characters as possible, none of them a line feed, up to a dollar sign that a digit or a
  comma follows; the group is the longest run of digits and commas from there.
\<close>

definition amount_char :: "char \<Rightarrow> bool" where
  "amount_char c = (is_digit c \<or> c = CHR '','')"

fun lazy_dollar :: "string \<Rightarrow> string option" where
  "lazy_dollar [] = None"
| "lazy_dollar (c # cs) =
     (if c = CHR ''$'' \<and> cs \<noteq> [] \<and> amount_char (hd cs) then Some (takeWhile amount_char cs)
      else if c = CHR 0x0A then None
      else lazy_dollar cs)"

fun search_amount :: "string \<Rightarrow> string option" where
  "search_amount [] = None"
| "search_amount (c # cs) =
     (if prefix ''Total Offering Amount'' (c # cs)
      then (case lazy_dollar (drop (length ''Total Offering Amount'') (c # cs)) of
              Some a \<Rightarrow> Some a
            | None \<Rightarrow> search_amount cs)
      else search_amount cs)"

definition parse_xml :: "string \<Rightarrow> (string \<times> pyval) list \<Rightarrow> (string \<times> pyval) list" where
  "parse_xml content info =
     (let info1 = detect_industry content info
      in case search_amount content of
           Some amount \<Rightarrow> AList.update ''offering_amount'' (PStr amount) info1
         | None \<Rightarrow> info1)"

text \<open>
  Lines 179 to 203, the loop over the URLs. An exception of the request is caught and the
  loop goes on; a status other than 200 lets it go on too; a status 200 ends it, after the
  text was scanned if the URL ends in \<^verbatim>\<open>.xml\<close>.
\<close>

fun try_urls :: "world \<Rightarrow> string list \<Rightarrow> string list \<Rightarrow> (string \<times> pyval) list
                 \<Rightarrow> (string \<times> pyval) list \<times> string list" where
  "try_urls w reqs [] info = (info, reqs)"
| "try_urls w reqs (url # urls) info =
     (case http w reqs url of
        Inl e \<Rightarrow> try_urls w (reqs @ [url]) urls info
      | Inr response \<Rightarrow>
          (if status_code response = 200
           then (if py_endswith url ''.xml'' then parse_xml (body_text response) info else info,
                 reqs @ [url])
           else try_urls w (reqs @ [url]) urls info))"

text \<open>
  The outer \<^verbatim>\<open>try\<close> block and the function. The block can only raise while it builds the
  URLs, before any request and with the dictionary untouched; the handler prints, and the
  function returns the dictionary. The result type still allows an exception, so that
  \<open>never raises\<close> is a statement about the function and not about its type.
\<close>

definition form_d_try :: "world \<Rightarrow> string list \<Rightarrow> string \<Rightarrow> pyval
                            \<Rightarrow> (exn + (string \<times> pyval) list) \<times> string list" where
  "form_d_try w reqs cik accession_number =
     (case possible_urls (int_max_str_digits w) cik accession_number of
        Inl e \<Rightarrow> (Inl e, reqs)
      | Inr urls \<Rightarrow>
          (case try_urls w reqs urls empty_form_d_items of (info, reqs') \<Rightarrow> (Inr info, reqs')))"

definition parse_form_d_filing :: "world \<Rightarrow> string list \<Rightarrow> string \<Rightarrow> pyval
                                     \<Rightarrow> (exn + pyval) \<times> string list" where
  "parse_form_d_filing w reqs cik accession_number =
     (case form_d_try w reqs cik accession_number of
        (Inl e, reqs') \<Rightarrow> (Inr empty_form_d, reqs')
      | (Inr info, reqs') \<Rightarrow> (Inr (PDict info), reqs'))"

text \<open>For the statements about the parser: the request for \<open>url\<close>, made after the requests
  \<open>reqs\<close>, is answered with status 200; and the text of that answer.\<close>

definition answers_ok :: "world \<Rightarrow> string list \<Rightarrow> string \<Rightarrow> bool" where
  "answers_ok w reqs url =
     (case http w reqs url of Inl e \<Rightarrow> False | Inr response \<Rightarrow> status_code response = 200)"

definition answer_text :: "world \<Rightarrow> string list \<Rightarrow> string \<Rightarrow> string" where
  "answer_text w reqs url =
     (case http w reqs url of Inl e \<Rightarrow> [] | Inr response \<Rightarrow> body_text response)"

section \<open>Requests for JSON\<close>

text \<open>
  \<^verbatim>\<open>_make_request\<close>: the handler catches \<^verbatim>\<open>RequestException\<close> only, prints and returns
  \<^verbatim>\<open>None\<close>; any other exception goes on to the caller. \<^verbatim>\<open>raise_for_status\<close> raises an
  \<^verbatim>\<open>HTTPError\<close>, which is a \<^verbatim>\<open>RequestException\<close>, on a status from 400 to 599.
\<close>

definition make_request :: "world \<Rightarrow> string list \<Rightarrow> string \<Rightarrow> (exn + pyval) \<times> string list" where
  "make_request w reqs url =
     (case http w reqs url of
        Inl e \<Rightarrow> (if e = RequestException then Inr PNone else Inl e, reqs @ [url])
      | Inr response \<Rightarrow>
          (if 400 \<le> status_code response \<and> status_code response < 600
           then (Inr PNone, reqs @ [url])
           else (case json_result response of
                   Inl e \<Rightarrow> (if e = RequestException then Inr PNone else Inl e, reqs @ [url])
                 | Inr v \<Rightarrow> (Inr v, reqs @ [url]))))"

section \<open>The candidate searches\<close>

text \<open>A candidate, the dictionary the two searches build. \<open>c_submissions_data\<close> is the key
  \<^verbatim>\<open>submissions_data\<close>, which only \<^verbatim>\<open>search_by_cik_direct\<close> sets.\<close>

record candidate =
  c_cik :: string
  c_name :: pyval
  c_ticker :: pyval
  c_company_type :: string
  c_submissions_data :: "pyval option"

text \<open>\<^verbatim>\<open>x.lower()\<close> on a value: only a string has the method.\<close>

definition py_lower_val :: "pyval \<Rightarrow> exn + string" where
  "py_lower_val v = (case v of PStr s \<Rightarrow> Inr (py_lower s) | _ \<Rightarrow> Inl AttributeError)"

text \<open>Lines 97 to 109, one round of the loop of \<^verbatim>\<open>search_public_companies\<close>: the match this
  directory entry gives, if any.\<close>

definition match_company :: "(pyval \<Rightarrow> string) \<Rightarrow> string \<Rightarrow> pyval \<Rightarrow> exn + candidate option" where
  "match_company repr company_name_lower company =
     (case py_getitem company ''title'' of
        Inl e \<Rightarrow> Inl e
      | Inr title \<Rightarrow>
     (case py_lower_val title of
        Inl e \<Rightarrow> Inl e
      | Inr title_lower \<Rightarrow>
     (case py_get company ''ticker'' (PStr []) of
        Inl e \<Rightarrow> Inl e
      | Inr ticker0 \<Rightarrow>
     (case py_lower_val ticker0 of
        Inl e \<Rightarrow> Inl e
      | Inr ticker_lower \<Rightarrow>
          (if str_in company_name_lower title_lower \<or> str_in company_name_lower ticker_lower
              \<or> str_in title_lower company_name_lower
           then (case py_getitem company ''cik_str'' of
                   Inl e \<Rightarrow> Inl e
                 | Inr cik_str \<Rightarrow>
                (case py_getitem company ''ticker'' of
                   Inl e \<Rightarrow> Inl e
                 | Inr ticker \<Rightarrow>
                     Inr (Some \<lparr> c_cik = py_zfill 10 (py_str repr cik_str), c_name = title,
                                  c_ticker = ticker, c_company_type = ''public'',
                                  c_submissions_data = None \<rparr>)))
           else Inr None)))))"

fun match_companies :: "(pyval \<Rightarrow> string) \<Rightarrow> string \<Rightarrow> (string \<times> pyval) list \<Rightarrow> candidate list
                        \<Rightarrow> exn + candidate list" where
  "match_companies repr company_name_lower [] matches = Inr matches"
| "match_companies repr company_name_lower (item # items) matches =
     (case match_company repr company_name_lower (snd item) of
        Inl e \<Rightarrow> Inl e
      | Inr None \<Rightarrow> match_companies repr company_name_lower items matches
      | Inr (Some m) \<Rightarrow> match_companies repr company_name_lower items (matches @ [m]))"

text \<open>\<^verbatim>\<open>x.items()\<close>: only a dictionary has the method.\<close>

definition py_items :: "pyval \<Rightarrow> exn + (string \<times> pyval) list" where
  "py_items v = (case v of PDict kvs \<Rightarrow> Inr kvs | _ \<Rightarrow> Inl AttributeError)"

definition tickers_url :: string where
  "tickers_url = ''https://www.sec.gov/files/company_tickers.json''"

definition search_public_companies :: "(pyval \<Rightarrow> string) \<Rightarrow> world \<Rightarrow> string list \<Rightarrow> string
                                         \<Rightarrow> (exn + candidate list) \<times> string list" where
  "search_public_companies repr w reqs company_name =
     (case make_request w reqs tickers_url of
        (Inl e, reqs') \<Rightarrow> (Inl e, reqs')
      | (Inr companies_data, reqs') \<Rightarrow>
          (if \<not> truthy companies_data then (Inr [], reqs')
           else (case py_items companies_data of
                   Inl e \<Rightarrow> (Inl e, reqs')
                 | Inr items \<Rightarrow> (match_companies repr (py_lower company_name) items [], reqs'))))"

definition submissions_url :: "string \<Rightarrow> string" where
  "submissions_url cik_formatted = ''https://data.sec.gov/submissions/CIK'' @ cik_formatted @ ''.json''"

text \<open>\<^verbatim>\<open>search_by_cik_direct\<close>. The dictionary literal is evaluated key by key: the name, the
  ticker (the first of the tickers if they are true), the company type.\<close>

definition search_by_cik_direct :: "world \<Rightarrow> string list \<Rightarrow> string
                                      \<Rightarrow> (exn + candidate option) \<times> string list" where
  "search_by_cik_direct w reqs cik =
     (let cik_formatted = py_zfill 10 cik
      in case make_request w reqs (submissions_url cik_formatted) of
           (Inl e, reqs') \<Rightarrow> (Inl e, reqs')
         | (Inr submissions_data, reqs') \<Rightarrow>
             (if truthy submissions_data
              then (case py_get submissions_data ''name'' (PStr ''Unknown'') of
                      Inl e \<Rightarrow> (Inl e, reqs')
                    | Inr nm \<Rightarrow>
                   (case py_get submissions_data ''tickers'' PNone of
                      Inl e \<Rightarrow> (Inl e, reqs')
                    | Inr tickers \<Rightarrow>
                   (case (if truthy tickers
                          then (case py_get submissions_data ''tickers'' (PList [PStr []]) of
                                  Inl e \<Rightarrow> Inl e
                                | Inr ts \<Rightarrow> py_index ts 0)
                          else Inr (PStr [])) of
                      Inl e \<Rightarrow> (Inl e, reqs')
                    | Inr ticker \<Rightarrow>
                        (Inr (Some \<lparr> c_cik = cik_formatted, c_name = nm, c_ticker = ticker,
                                      c_company_type = (if truthy tickers then ''public'' else ''private''),
                                      c_submissions_data = Some submissions_data \<rparr>), reqs'))))
              else (Inr None, reqs')))"

section \<open>The profile fetch\<close>

text \<open>
  Lines 224 to 231, the loop over \<^verbatim>\<open>enumerate(recent_filings.get('form', []))\<close>, from index
  \<open>i\<close> on. The first entry equal to \<^verbatim>\<open>'D'\<close> whose accession number is true is parsed, the
  result is stored under \<^verbatim>\<open>form_d_info\<close> and the loop ends; an entry \<^verbatim>\<open>'D'\<close> whose accession
  number is not true is passed over.
\<close>

fun form_d_loop :: "world \<Rightarrow> string list \<Rightarrow> string \<Rightarrow> pyval \<Rightarrow> pyval \<Rightarrow> nat \<Rightarrow> pyval list
                    \<Rightarrow> (exn + pyval) \<times> string list" where
  "form_d_loop w reqs cik recent_filings submissions_data i [] = (Inr submissions_data, reqs)"
| "form_d_loop w reqs cik recent_filings submissions_data i (form_type # rest) =
     (if form_type = PStr ''D''
      then (case py_get recent_filings ''accessionNumber'' (PList [PNone]) of
              Inl e \<Rightarrow> (Inl e, reqs)
            | Inr numbers \<Rightarrow>
           (case py_index numbers i of
              Inl e \<Rightarrow> (Inl e, reqs)
            | Inr accession_number \<Rightarrow>
                (if truthy accession_number
                 then (case parse_form_d_filing w reqs cik accession_number of
                         (Inl e, reqs') \<Rightarrow> (Inl e, reqs')
                       | (Inr parsed, reqs') \<Rightarrow>
                           (py_setitem submissions_data ''form_d_info'' parsed, reqs'))
                 else form_d_loop w reqs cik recent_filings submissions_data (Suc i) rest)))
      else form_d_loop w reqs cik recent_filings submissions_data (Suc i) rest)"

text \<open>Lines 220 to 231: the test \<^verbatim>\<open>'filings' in d and 'recent' in d['filings']\<close> and what
  follows it.\<close>

definition attach_form_d :: "world \<Rightarrow> string list \<Rightarrow> string \<Rightarrow> pyval \<Rightarrow> (exn + pyval) \<times> string list" where
  "attach_form_d w reqs cik submissions_data =
     (case py_contains ''filings'' submissions_data of
        Inl e \<Rightarrow> (Inl e, reqs)
      | Inr False \<Rightarrow> (Inr submissions_data, reqs)
      | Inr True \<Rightarrow>
     (case py_getitem submissions_data ''filings'' of
        Inl e \<Rightarrow> (Inl e, reqs)
      | Inr filings \<Rightarrow>
     (case py_contains ''recent'' filings of
        Inl e \<Rightarrow> (Inl e, reqs)
      | Inr False \<Rightarrow> (Inr submissions_data, reqs)
      | Inr True \<Rightarrow>
     (case py_getitem filings ''recent'' of
        Inl e \<Rightarrow> (Inl e, reqs)
      | Inr recent_filings \<Rightarrow>
     (case py_get recent_filings ''form'' (PList []) of
        Inl e \<Rightarrow> (Inl e, reqs)
      | Inr forms \<Rightarrow>
     (case py_iter forms of
        Inl e \<Rightarrow> (Inl e, reqs)
      | Inr form_types \<Rightarrow>
          form_d_loop w reqs cik recent_filings submissions_data 0 form_types))))))"

definition get_enhanced_submissions_data :: "world \<Rightarrow> string list \<Rightarrow> string
                                               \<Rightarrow> (exn + pyval) \<times> string list" where
  "get_enhanced_submissions_data w reqs cik =
     (let cik_formatted = py_zfill 10 cik
      in case make_request w reqs (submissions_url cik_formatted) of
           (Inl e, reqs') \<Rightarrow> (Inl e, reqs')
         | (Inr submissions_data, reqs') \<Rightarrow>
             (if \<not> truthy submissions_data then (Inr PNone, reqs')
              else attach_form_d w reqs' cik submissions_data))"

section \<open>The comprehensive search\<close>

text \<open>One entry of \<^verbatim>\<open>all_results\<close>.\<close>

record search_result =
  r_cik :: string
  r_name :: pyval
  r_ticker :: pyval
  r_company_type :: pyval
  r_sic_code :: pyval
  r_sic_description :: pyval
  r_business_description :: pyval
  r_industry_category :: pyval
  r_form_d_info :: pyval
  r_data_source :: string
  r_filing_count :: nat

text \<open>Line 361, \<^verbatim>\<open>len(enhanced_data.get('filings', {}).get('recent', {}).get('form', []))\<close>.\<close>

definition filing_count :: "pyval \<Rightarrow> exn + nat" where
  "filing_count enhanced_data =
     (case py_get enhanced_data ''filings'' (PDict []) of
        Inl e \<Rightarrow> Inl e
      | Inr filings \<Rightarrow>
     (case py_get filings ''recent'' (PDict []) of
        Inl e \<Rightarrow> Inl e
      | Inr recent \<Rightarrow>
     (case py_get recent ''form'' (PList []) of
        Inl e \<Rightarrow> Inl e
      | Inr forms \<Rightarrow> py_len forms)))"

text \<open>
  Lines 348 to 362. \<^verbatim>\<open>industry_info\<close> always has the key \<^verbatim>\<open>company_type\<close>, so
  \<^verbatim>\<open>industry_info.get('company_type', match.get('company_type', 'unknown'))\<close> is its value
  there and the default, the candidate's own company type, is never taken.
\<close>

definition build_result :: "(pyval \<Rightarrow> string) \<Rightarrow> candidate \<Rightarrow> pyval \<Rightarrow> exn + search_result" where
  "build_result repr m enhanced_data =
     (let industry_info = extract_comprehensive_industry_info repr enhanced_data (c_name m)
      in case filing_count enhanced_data of
           Inl e \<Rightarrow> Inl e
         | Inr n \<Rightarrow>
             Inr \<lparr> r_cik = c_cik m, r_name = c_name m, r_ticker = c_ticker m,
                   r_company_type = company_type industry_info,
                   r_sic_code = sic_code industry_info,
                   r_sic_description = sic_description industry_info,
                   r_business_description = business_description industry_info,
                   r_industry_category = industry_category industry_info,
                   r_form_d_info = form_d_info industry_info,
                   r_data_source = source industry_info,
                   r_filing_count = n \<rparr>)"

text \<open>Lines 341 to 364, the loop over the matches it is given.\<close>

fun process_matches :: "(pyval \<Rightarrow> string) \<Rightarrow> world \<Rightarrow> string list \<Rightarrow> candidate list
                        \<Rightarrow> search_result list \<Rightarrow> (exn + search_result list) \<times> string list" where
  "process_matches repr w reqs [] all_results = (Inr all_results, reqs)"
| "process_matches repr w reqs (m # rest) all_results =
     (case get_enhanced_submissions_data w reqs (c_cik m) of
        (Inl e, reqs') \<Rightarrow> (Inl e, reqs')
      | (Inr enhanced_data, reqs') \<Rightarrow>
          (if truthy enhanced_data
           then (case build_result repr m enhanced_data of
                   Inl e \<Rightarrow> (Inl e, reqs')
                 | Inr result \<Rightarrow> process_matches repr w reqs' rest (all_results @ [result]))
           else process_matches repr w reqs' rest all_results))"

text \<open>Lines 334 to 338: the direct search, when \<^verbatim>\<open>include_cik\<close> is true, appends its
  candidate to the list of the name search.\<close>

definition add_cik_result :: "world \<Rightarrow> string list \<Rightarrow> string option \<Rightarrow> candidate list
                                \<Rightarrow> (exn + candidate list) \<times> string list" where
  "add_cik_result w reqs include_cik public_matches =
     (case include_cik of
        None \<Rightarrow> (Inr public_matches, reqs)
      | Some cik \<Rightarrow>
          (if cik = [] then (Inr public_matches, reqs)
           else (case search_by_cik_direct w reqs cik of
                   (Inl e, reqs') \<Rightarrow> (Inl e, reqs')
                 | (Inr None, reqs') \<Rightarrow> (Inr public_matches, reqs')
                 | (Inr (Some cik_result), reqs') \<Rightarrow> (Inr (public_matches @ [cik_result]), reqs'))))"

definition comprehensive_company_search :: "(pyval \<Rightarrow> string) \<Rightarrow> world \<Rightarrow> string list \<Rightarrow> string
      \<Rightarrow> string option \<Rightarrow> (exn + search_result list) \<times> string list" where
  "comprehensive_company_search repr w reqs company_name include_cik =
     (case search_public_companies repr w reqs company_name of
        (Inl e, reqs1) \<Rightarrow> (Inl e, reqs1)
      | (Inr public_matches, reqs1) \<Rightarrow>
          (case add_cik_result w reqs1 include_cik public_matches of
             (Inl e, reqs2) \<Rightarrow> (Inl e, reqs2)
           | (Inr matches, reqs2) \<Rightarrow> process_matches repr w reqs2 (take 5 matches) []))"

section \<open>Properties of the classifier\<close>


lemma and_then_None [simp]: "and_then (None, i) f = f i"
  by (simp add: and_then_def)

lemma and_then_Some [simp]: "and_then (Some e, i) f = (Some e, i)"
  by (simp add: and_then_def)

lemma snd_and_then:
  "snd (and_then r f) = (if fst r = None then snd (f (snd r)) else snd r)"
  by (auto simp: and_then_def split: option.splits)

lemma fst_and_then:
  "fst (and_then r f) = (if fst r = None then fst (f (snd r)) else fst r)"
  by (auto simp: and_then_def split: option.splits)

lemma set_company_type_dict:
  "set_company_type (PDict d) info =
     (None, info\<lparr>company_type := PStr (if truthy (case map_of d ''tickers'' of None \<Rightarrow> PNone | Some v \<Rightarrow> v) then ''public'' else ''private'')\<rparr>)"
  by (simp add: set_company_type_def)

lemma extract_sic_dict:
  "extract_sic repr (PDict d) info =
     (None, case map_of d ''sic'' of
              None \<Rightarrow> info
            | Some sic \<Rightarrow> if truthy sic
                then info\<lparr>sic_code := sic, sic_description := PStr (sic_description_of repr sic)\<rparr>
                else info)"
  by (auto simp: extract_sic_def split: option.splits)

lemma extract_description_str:
  "map_of d ''businessDescription'' = Some (PStr desc) \<Longrightarrow>
   extract_description (PDict d) info =
     (None, info\<lparr>business_description := PStr (if 300 < length desc then take 300 desc @ ellipsis else desc)\<rparr>)"
  by (simp add: extract_description_def)

lemma extract_description_absent:
  "map_of d ''businessDescription'' = None \<Longrightarrow> extract_description (PDict d) info = (None, info)"
  by (simp add: extract_description_def)

lemma extract_form_d_dict:
  "map_of d ''form_d_info'' = Some (PDict fd) \<Longrightarrow>
   extract_form_d (PDict d) info =
     (None, case map_of fd ''industry_category'' of
              None \<Rightarrow> info\<lparr>form_d_info := PDict fd\<rparr>
            | Some cat \<Rightarrow> if truthy cat then info\<lparr>form_d_info := PDict fd, industry_category := cat\<rparr>
                           else info\<lparr>form_d_info := PDict fd\<rparr>)"
  by (auto simp: extract_form_d_def Let_def split: option.splits)

lemma extract_description_keeps:
  "sic_code (snd (extract_description d info)) = sic_code info"
  "sic_description (snd (extract_description d info)) = sic_description info"
  "industry_category (snd (extract_description d info)) = industry_category info"
  "company_type (snd (extract_description d info)) = company_type info"
  "form_d_info (snd (extract_description d info)) = form_d_info info"
  "source (snd (extract_description d info)) = source info"
  "confidence (snd (extract_description d info)) = confidence info"
  by (auto simp: extract_description_def split: sum.splits bool.splits)

lemma extract_form_d_keeps:
  "sic_code (snd (extract_form_d d info)) = sic_code info"
  "sic_description (snd (extract_form_d d info)) = sic_description info"
  "business_description (snd (extract_form_d d info)) = business_description info"
  "company_type (snd (extract_form_d d info)) = company_type info"
  "source (snd (extract_form_d d info)) = source info"
  "confidence (snd (extract_form_d d info)) = confidence info"
  by (auto simp: extract_form_d_def Let_def split: sum.splits bool.splits)

lemma extract_sic_keeps:
  "business_description (snd (extract_sic repr d info)) = business_description info"
  "industry_category (snd (extract_sic repr d info)) = industry_category info"
  "company_type (snd (extract_sic repr d info)) = company_type info"
  "form_d_info (snd (extract_sic repr d info)) = form_d_info info"
  "source (snd (extract_sic repr d info)) = source info"
  "confidence (snd (extract_sic repr d info)) = confidence info"
  by (auto simp: extract_sic_def split: sum.splits bool.splits)

lemma set_company_type_keeps:
  "sic_code (snd (set_company_type d info)) = sic_code info"
  "sic_description (snd (set_company_type d info)) = sic_description info"
  "business_description (snd (set_company_type d info)) = business_description info"
  "industry_category (snd (set_company_type d info)) = industry_category info"
  "form_d_info (snd (set_company_type d info)) = form_d_info info"
  "source (snd (set_company_type d info)) = source info"
  "confidence (snd (set_company_type d info)) = confidence info"
  by (auto simp: set_company_type_def split: sum.splits)

lemma name_fallback_keeps:
  "sic_code (snd (name_fallback name info)) = sic_code info"
  "sic_description (snd (name_fallback name info)) = sic_description info"
  "business_description (snd (name_fallback name info)) = business_description info"
  "company_type (snd (name_fallback name info)) = company_type info"
  "form_d_info (snd (name_fallback name info)) = form_d_info info"
  by (auto simp: name_fallback_def split: sum.splits)

lemma classify_str: "\<exists>c. classify_industry_from_name (PStr s) = Inr c"
  by (simp add: classify_industry_from_name_def Let_def split: option.splits)

lemma name_fallback_str:
  "name_fallback (PStr s) info =
     (None, if truthy (sic_code info) \<or> truthy (industry_category info) \<or> truthy (business_description info)
            then info
            else info\<lparr>industry_category := PStr (fst (projr (classify_industry_from_name (PStr s)))),
                       confidence := Some (snd (projr (classify_industry_from_name (PStr s)))),
                       source := ''name_classification''\<rparr>)"
  using classify_str [of s] by (auto simp: name_fallback_def)

lemma before_fallback_source: "source (snd (before_fallback repr d)) = ''submissions''"
  by (simp add: before_fallback_def snd_and_then extract_form_d_keeps extract_description_keeps
      extract_sic_keeps set_company_type_keeps initial_info_def)

lemma before_fallback_confidence: "confidence (snd (before_fallback repr d)) = None"
  by (simp add: before_fallback_def snd_and_then extract_form_d_keeps extract_description_keeps
      extract_sic_keeps set_company_type_keeps initial_info_def)

lemma extract_form_d_absent:
  "map_of d ''form_d_info'' = None \<Longrightarrow> extract_form_d (PDict d) info = (None, info)"
  by (simp add: extract_form_d_def)

text \<open>The steps before the fallback do not raise on a profile that is a dictionary, whose
  description is absent or a string and whose Form D record is absent or a dictionary.\<close>

lemma before_fallback_completes:
  assumes "map_of d ''businessDescription'' = None
           \<or> (\<exists>desc. map_of d ''businessDescription'' = Some (PStr desc))"
    and "map_of d ''form_d_info'' = None \<or> (\<exists>fd. map_of d ''form_d_info'' = Some (PDict fd))"
  shows "fst (before_fallback repr (PDict d)) = None"
  using assms
  by (auto simp: before_fallback_def set_company_type_dict extract_sic_dict
      extract_description_str extract_description_absent extract_form_d_dict
      extract_form_d_absent)

text \<open>
  Claim C3, as the code has it, on the profiles for which the steps before the fallback do
  not raise; what the function does after an exception in those steps is left out. For such a
  profile and a query name that is a string, the fallback to the name classification fires
  (the tag becomes \<open>name_classification\<close>) if and only if none of \<^verbatim>\<open>sic_code\<close>,
  \<^verbatim>\<open>industry_category\<close> and \<^verbatim>\<open>business_description\<close> holds a true (non-empty) value after
  those steps. When one of them does, the tag stays \<open>submissions\<close> and the dictionary is
  returned as those steps left it.
\<close>

theorem name_fallback_fires_iff:
  assumes "fst (before_fallback repr d) = None"
  shows "(let s = snd (before_fallback repr d);
              r = extract_comprehensive_industry_info repr d (PStr name)
          in (source r = ''name_classification'' \<longleftrightarrow>
                \<not> truthy (sic_code s) \<and> \<not> truthy (industry_category s)
                \<and> \<not> truthy (business_description s))
             \<and> (source r \<noteq> ''name_classification'' \<longrightarrow> source r = ''submissions'' \<and> r = s))"
  using before_fallback_source [of repr d] assms
  by (auto simp: Let_def extract_comprehensive_industry_info_def extract_try_def snd_and_then
      name_fallback_str)

text \<open>
  Claim C2, as the code has it. A business description that is a string is always stored. One
  longer than 300 characters is stored as its first 300 characters followed by the ellipsis
  marker, so with length exactly 300 plus the length of the marker (not 301 plus it); one of
  300 characters or fewer is stored verbatim.
\<close>

theorem description_truncation:
  assumes "map_of d ''businessDescription'' = Some (PStr desc)"
  shows "\<exists>stored.
           business_description (extract_comprehensive_industry_info repr (PDict d) name) = PStr stored
           \<and> (if 300 < length desc
              then length stored = 300 + length ellipsis \<and> take 300 stored = take 300 desc
                   \<and> suffix ellipsis stored
              else stored = desc)"
  using assms
  by (simp add: extract_comprehensive_industry_info_def extract_try_def before_fallback_def
      snd_and_then fst_and_then set_company_type_dict extract_sic_dict extract_description_str
      extract_form_d_keeps name_fallback_keeps initial_info_def suffix_def)


lemma name_fallback_source:
  "source (snd (name_fallback n info)) = source info \<or> source (snd (name_fallback n info)) = ''name_classification''"
  by (auto simp: name_fallback_def split: sum.splits)

lemma name_fallback_fired:
  "source info = ''submissions'' \<Longrightarrow> source (snd (name_fallback n info)) = ''name_classification'' \<Longrightarrow>
     \<not> truthy (sic_code info) \<and> \<not> truthy (business_description info)
     \<and> confidence (snd (name_fallback n info)) \<noteq> None"
  by (auto simp: name_fallback_def split: sum.splits if_splits)

text \<open>
  Claim C1, as the code has it. The first three stages are no fallback chain. On a profile
  that is a dictionary, a true industry code is stored with its description, and a business
  description that is a string is stored (truncated), each whatever the other stages produce.
  Where the business description is absent or a string, a Form D record (a dictionary) with a
  true category is attached and its category adopted, whatever the first two stages produced;
  what the Form D stage does after an exception on a description that is not a string is left
  out. Only the fourth stage is a fallback. Exactly one tag is set, \<open>submissions\<close> or
  \<open>name_classification\<close>, and it is \<open>name_classification\<close> only if the code and the
  description came out empty and the name classification was merged in.
\<close>

theorem stages_cumulative:
  "(let r = extract_comprehensive_industry_info repr (PDict d) name in
     (\<forall>sic. map_of d ''sic'' = Some sic \<and> truthy sic \<longrightarrow>
        sic_code r = sic \<and> sic_description r = PStr (sic_description_of repr sic))
   \<and> (\<forall>desc. map_of d ''businessDescription'' = Some (PStr desc) \<longrightarrow>
        business_description r = PStr (if 300 < length desc then take 300 desc @ ellipsis else desc))
   \<and> (\<forall>fd cat.
        (map_of d ''businessDescription'' = None
           \<or> (\<exists>desc. map_of d ''businessDescription'' = Some (PStr desc)))
        \<and> map_of d ''form_d_info'' = Some (PDict fd)
        \<and> map_of fd ''industry_category'' = Some cat \<and> truthy cat \<longrightarrow>
        form_d_info r = PDict fd \<and> industry_category r = cat)
   \<and> (source r = ''submissions'' \<or> source r = ''name_classification'')
   \<and> (source r = ''name_classification'' \<longrightarrow>
        \<not> truthy (sic_code r) \<and> \<not> truthy (business_description r) \<and> confidence r \<noteq> None))"
proof -
  define r where "r = extract_comprehensive_industry_info repr (PDict d) name"
  define b where "b = before_fallback repr (PDict d)"
  have r_eq: "r = (if fst b = None then snd (name_fallback name (snd b)) else snd b)"
    by (simp add: r_def b_def extract_comprehensive_industry_info_def extract_try_def snd_and_then)
  have src_b: "source (snd b) = ''submissions''"
    by (simp add: b_def before_fallback_source)
  have sic: "sic_code r = sic \<and> sic_description r = PStr (sic_description_of repr sic)"
    if "map_of d ''sic'' = Some sic" "truthy sic" for sic
    using that
    by (simp add: r_eq b_def before_fallback_def snd_and_then fst_and_then set_company_type_dict
        extract_sic_dict extract_description_keeps extract_form_d_keeps name_fallback_keeps)
  have desc: "business_description r = PStr (if 300 < length desc then take 300 desc @ ellipsis else desc)"
    if "map_of d ''businessDescription'' = Some (PStr desc)" for desc
    using that
    by (simp add: r_eq b_def before_fallback_def snd_and_then fst_and_then set_company_type_dict
        extract_sic_dict extract_description_str extract_form_d_keeps name_fallback_keeps)
  have fd: "form_d_info r = PDict fd \<and> industry_category r = cat"
    if "map_of d ''businessDescription'' = None
          \<or> (\<exists>desc. map_of d ''businessDescription'' = Some (PStr desc))"
       "map_of d ''form_d_info'' = Some (PDict fd)"
       "map_of fd ''industry_category'' = Some cat" "truthy cat" for fd cat
    using that
    by (auto simp: r_eq b_def before_fallback_def snd_and_then fst_and_then set_company_type_dict
        extract_sic_dict extract_description_str extract_description_absent extract_form_d_dict
        name_fallback_def)
  have src: "source r = ''submissions'' \<or> source r = ''name_classification''"
    using src_b name_fallback_source [of name "snd b"] by (auto simp: r_eq)
  have fired: "\<not> truthy (sic_code r) \<and> \<not> truthy (business_description r) \<and> confidence r \<noteq> None"
    if "source r = ''name_classification''"
  proof (cases "fst b = None")
    case True
    with that have "source (snd (name_fallback name (snd b))) = ''name_classification''"
      by (simp add: r_eq)
    from name_fallback_fired [OF src_b this] True show ?thesis
      by (simp add: r_eq name_fallback_keeps)
  next
    case False
    with that src_b show ?thesis by (simp add: r_eq)
  qed
  from sic desc fd src fired show ?thesis
    unfolding r_def [symmetric] Let_def by blast
qed

text \<open>A profile with a code, a description and a Form D category has all three applied.\<close>

theorem stages_cumulative_witness:
  "sic_code (extract_comprehensive_industry_info (\<lambda>v. [])
       (PDict [(''sic'', PStr ''7372''), (''businessDescription'', PStr ''Software''),
               (''form_d_info'', PDict [(''industry_category'', PStr ''Technology'')])])
       (PStr ''Acme'')) = PStr ''7372''
   \<and> business_description (extract_comprehensive_industry_info (\<lambda>v. [])
       (PDict [(''sic'', PStr ''7372''), (''businessDescription'', PStr ''Software''),
               (''form_d_info'', PDict [(''industry_category'', PStr ''Technology'')])])
       (PStr ''Acme'')) = PStr ''Software''
   \<and> industry_category (extract_comprehensive_industry_info (\<lambda>v. [])
       (PDict [(''sic'', PStr ''7372''), (''businessDescription'', PStr ''Software''),
               (''form_d_info'', PDict [(''industry_category'', PStr ''Technology'')])])
       (PStr ''Acme'')) = PStr ''Technology''"
  using stages_cumulative [of "\<lambda>v. []"
      "[(''sic'', PStr ''7372''), (''businessDescription'', PStr ''Software''),
        (''form_d_info'', PDict [(''industry_category'', PStr ''Technology'')])]" "PStr ''Acme''"]
  by (simp add: Let_def)

text \<open>
  Claim C1 as stated fails: on a profile carrying both an industry code and a free-text
  description, the description capture of stage 2 is applied although stage 1 produced a code.
\<close>

theorem fallback_chain_counterexample:
  "sic_code (extract_comprehensive_industry_info (\<lambda>v. [])
       (PDict [(''sic'', PStr ''7372''), (''businessDescription'', PStr ''Software'')])
       (PStr ''Acme'')) = PStr ''7372''
   \<and> business_description (extract_comprehensive_industry_info (\<lambda>v. [])
       (PDict [(''sic'', PStr ''7372''), (''businessDescription'', PStr ''Software'')])
       (PStr ''Acme'')) = PStr ''Software''"
  by code_simp

text \<open>A description of 301 characters is stored with 303.\<close>

theorem description_truncation_witness:
  "\<exists>stored.
     business_description (extract_comprehensive_industry_info (\<lambda>v. [])
        (PDict [(''businessDescription'', PStr (replicate 301 CHR ''a''))]) (PStr ''Acme'')) = PStr stored
     \<and> length stored = 303 \<and> suffix ''...'' stored"
  using description_truncation [of "[(''businessDescription'', PStr (replicate 301 CHR ''a''))]"
      "replicate 301 CHR ''a''" "\<lambda>v. []" "PStr ''Acme''"]
  by (auto simp: ellipsis_def)

text \<open>
  Claim C2 as stated fails: a description of 301 characters is stored with length 303, which
  is not 301 plus the length of the ellipsis marker.
\<close>

theorem description_length_counterexample:
  "py_len (business_description (extract_comprehensive_industry_info (\<lambda>v. [])
      (PDict [(''businessDescription'', PStr (replicate 301 CHR ''a''))]) (PStr ''Acme''))) = Inr 303
   \<and> (303::nat) \<noteq> 301 + length ellipsis"
  by code_simp

text \<open>The fallback fires on an empty profile and is suppressed by an industry code.\<close>

theorem name_fallback_fires_iff_witness:
  "source (extract_comprehensive_industry_info (\<lambda>v. []) (PDict []) (PStr ''Acme Cloud Systems''))
     = ''name_classification''
   \<and> source (extract_comprehensive_industry_info (\<lambda>v. []) (PDict [(''sic'', PStr ''7372'')])
        (PStr ''Acme Cloud Systems'')) = ''submissions''"
  using name_fallback_fires_iff [OF before_fallback_completes, of "[]" "\<lambda>v. []" "''Acme Cloud Systems''"]
    name_fallback_fires_iff [OF before_fallback_completes, of "[(''sic'', PStr ''7372'')]" "\<lambda>v. []"
      "''Acme Cloud Systems''"]
  by (simp add: Let_def before_fallback_def set_company_type_def extract_sic_def
      extract_description_def extract_form_d_def initial_info_def)

text \<open>
  Claim C3 as stated fails: a profile whose \<^verbatim>\<open>businessDescription\<close> is the empty string has
  that field set after the first three stages (it is not \<^verbatim>\<open>None\<close>), and the fallback fires all
  the same.
\<close>

theorem name_fallback_counterexample:
  "business_description (extract_comprehensive_industry_info (\<lambda>v. [])
       (PDict [(''businessDescription'', PStr [])]) (PStr ''Acme Cloud'')) = PStr []
   \<and> PStr [] \<noteq> PNone
   \<and> source (extract_comprehensive_industry_info (\<lambda>v. [])
       (PDict [(''businessDescription'', PStr [])]) (PStr ''Acme Cloud'')) = ''name_classification''"
  by code_simp

section \<open>Properties of the Form D parser\<close>


lemma nat_digits_small: "n < 10 \<Longrightarrow> nat_digits n = [digit_char n]"
  by (simp add: nat_digits.simps)

lemma nat_digits_large: "\<not> n < 10 \<Longrightarrow> nat_digits n = nat_digits (n div 10) @ [digit_char (n mod 10)]"
  by (subst nat_digits.simps) simp

lemma digit_char_simps:
  "digit_char 0 = CHR ''0''" "digit_char 1 = CHR ''1''" "digit_char (Suc 0) = CHR ''1''"
  "digit_char 2 = CHR ''2''" "digit_char 3 = CHR ''3''" "digit_char 4 = CHR ''4''"
  "digit_char 5 = CHR ''5''" "digit_char 6 = CHR ''6''" "digit_char 7 = CHR ''7''"
  "digit_char 8 = CHR ''8''" "digit_char 9 = CHR ''9''"
  by (simp_all add: digit_char_def char_of_def bit_Suc_0_iff)

lemma py_int_example: "py_int max_str_digits ''0001518449'' = Inr 1518449"
  by (simp add: py_int_def py_strip_def is_space_def is_digit_def digits_value_def)

lemma str_of_int_example: "str_of_int 1518449 = ''1518449''"
  by (simp add: str_of_int_def nat_digits_small nat_digits_large digit_char_simps)

lemma possible_urls_example:
  "possible_urls max_str_digits ''0001518449'' (PStr ''0001518449-21-000001'') =
     Inr [''https://www.sec.gov/Archives/edgar/data/1518449/0001518449-21-000001/xslFormDX01/primary_doc.xml'',
          ''https://www.sec.gov/Archives/edgar/data/1518449/0001518449-21-000001/primary_doc.xml'',
          ''https://www.sec.gov/Archives/edgar/data/1518449/0001518449-21-000001.txt'']"
  by (simp add: possible_urls_def py_int_example str_of_int_example)

lemma possible_urls_Inr:
  assumes "possible_urls max_str_digits cik accession_number = Inr urls"
  shows "\<exists>n acc. py_int max_str_digits cik = Inr n \<and> accession_number = PStr acc
           \<and> urls = [''https://www.sec.gov/Archives/edgar/data/'' @ str_of_int n @ ''/'' @ acc @ ''/xslFormDX01/primary_doc.xml'',
                      ''https://www.sec.gov/Archives/edgar/data/'' @ str_of_int n @ ''/'' @ acc @ ''/primary_doc.xml'',
                      ''https://www.sec.gov/Archives/edgar/data/'' @ str_of_int n @ ''/'' @ acc @ ''.txt'']"
  using assms
  by (auto simp: possible_urls_def Let_def split: sum.splits pyval.splits)

lemma endswith_xml_append: "py_endswith (a @ b @ ''.xml'') ''.xml''"
  by (simp add: py_endswith_def suffix_def)

lemma endswith_txt_not_xml: "\<not> py_endswith (a @ ''.txt'') ''.xml''"
  by (auto simp: py_endswith_def suffix_def append_eq_append_conv2 Cons_eq_append_conv append_eq_Cons_conv)

lemma try_urls_three:
  "try_urls w reqs [u1, u2, u3] info =
     (if answers_ok w reqs u1
      then (if py_endswith u1 ''.xml'' then parse_xml (answer_text w reqs u1) info else info, reqs @ [u1])
      else if answers_ok w (reqs @ [u1]) u2
      then (if py_endswith u2 ''.xml'' then parse_xml (answer_text w (reqs @ [u1]) u2) info else info,
            reqs @ [u1, u2])
      else if answers_ok w (reqs @ [u1, u2]) u3
      then (if py_endswith u3 ''.xml'' then parse_xml (answer_text w (reqs @ [u1, u2]) u3) info else info,
            reqs @ [u1, u2, u3])
      else (info, reqs @ [u1, u2, u3]))"
  by (auto simp: answers_ok_def answer_text_def split: sum.splits)

lemma try_urls_all_fail:
  "(\<And>k. k < length urls \<Longrightarrow> \<not> answers_ok w (reqs @ take k urls) (urls ! k)) \<Longrightarrow>
   try_urls w reqs urls info = (info, reqs @ urls)"
proof (induction urls arbitrary: reqs)
  case Nil
  then show ?case by simp
next
  case (Cons u us)
  have first: "\<not> answers_ok w reqs u"
    using Cons.prems [of 0] by simp
  have rest: "\<not> answers_ok w ((reqs @ [u]) @ take k us) (us ! k)" if "k < length us" for k
    using Cons.prems [of "Suc k"] that by simp
  have "try_urls w (reqs @ [u]) us info = (info, (reqs @ [u]) @ us)"
    by (rule Cons.IH) (use rest in blast)
  with first show ?case
    by (auto simp: answers_ok_def split: sum.splits)
qed


lemma parse_form_d_three:
  "possible_urls (int_max_str_digits w) cik acc = Inr [u1, u2, u3] \<Longrightarrow>
   parse_form_d_filing w reqs cik acc =
     (case try_urls w reqs [u1, u2, u3] empty_form_d_items of (info, reqs') \<Rightarrow> (Inr (PDict info), reqs'))"
  by (simp add: parse_form_d_filing_def form_d_try_def del: try_urls.simps split: prod.splits)

text \<open>
  Claim C4: the identifier loses its leading zeros, but the accession reference goes into all
  three URLs with its dashes; the stripped form \<^verbatim>\<open>acc_clean\<close> is computed and never used.
\<close>

theorem possible_urls_keep_dashes:
  "possible_urls max_str_digits ''0001518449'' (PStr ''0001518449-21-000001'') =
     Inr [''https://www.sec.gov/Archives/edgar/data/1518449/0001518449-21-000001/xslFormDX01/primary_doc.xml'',
          ''https://www.sec.gov/Archives/edgar/data/1518449/0001518449-21-000001/primary_doc.xml'',
          ''https://www.sec.gov/Archives/edgar/data/1518449/0001518449-21-000001.txt'']
   \<and> remove_dashes ''0001518449-21-000001'' = ''000151844921000001''"
  by (simp add: possible_urls_example remove_dashes_def)



text \<open>
  Claim C9. When the two XML locations do not answer with status 200 and the legacy text
  location does, the parser returns the all-empty record: the text is not scanned.
\<close>

theorem legacy_text_gives_empty:
  assumes "possible_urls (int_max_str_digits w) cik acc = Inr [structured, plain, legacy]"
    and "\<not> answers_ok w reqs structured"
    and "\<not> answers_ok w (reqs @ [structured]) plain"
    and "answers_ok w (reqs @ [structured, plain]) legacy"
  shows "parse_form_d_filing w reqs cik acc = (Inr empty_form_d, reqs @ [structured, plain, legacy])"
proof -
  from possible_urls_Inr [OF assms(1)] obtain n a where
    "legacy = ''https://www.sec.gov/Archives/edgar/data/'' @ str_of_int n @ ''/'' @ a @ ''.txt''"
    by blast
  then have "legacy = (''https://www.sec.gov/Archives/edgar/data/'' @ str_of_int n @ ''/'' @ a) @ ''.txt''"
    by simp
  then have "\<not> py_endswith legacy ''.xml''"
    using endswith_txt_not_xml by metis
  with assms show ?thesis
    by (simp add: parse_form_d_three try_urls_three empty_form_d_def del: try_urls.simps)
qed

text \<open>A legacy text that names an industry keyword and a labelled offering amount.\<close>

theorem legacy_text_gives_empty_witness:
  "str_in ''Technology'' ''Technology fund. Total Offering Amount $1,000''
   \<and> search_amount ''Technology fund. Total Offering Amount $1,000'' = Some ''1,000''
   \<and> parse_form_d_filing
         \<lparr>http = (\<lambda>reqs url.
            if url = ''https://www.sec.gov/Archives/edgar/data/1518449/0001518449-21-000001.txt''
            then Inr \<lparr>status_code = 200, body_text = ''Technology fund. Total Offering Amount $1,000'',
                      json_result = Inl ValueError\<rparr>
            else Inr \<lparr>status_code = 404, body_text = [], json_result = Inl ValueError\<rparr>), int_max_str_digits = 4300\<rparr>
         [] ''0001518449'' (PStr ''0001518449-21-000001'') =
       (Inr empty_form_d,
        [''https://www.sec.gov/Archives/edgar/data/1518449/0001518449-21-000001/xslFormDX01/primary_doc.xml'',
         ''https://www.sec.gov/Archives/edgar/data/1518449/0001518449-21-000001/primary_doc.xml'',
         ''https://www.sec.gov/Archives/edgar/data/1518449/0001518449-21-000001.txt''])"
proof -
  have a: "str_in ''Technology'' ''Technology fund. Total Offering Amount $1,000''"
    by code_simp
  have b: "search_amount ''Technology fund. Total Offering Amount $1,000'' = Some ''1,000''"
    by code_simp
  show ?thesis
    using a b legacy_text_gives_empty [OF possible_urls_example,
      of "\<lparr>http = (\<lambda>reqs url.
            if url = ''https://www.sec.gov/Archives/edgar/data/1518449/0001518449-21-000001.txt''
            then Inr \<lparr>status_code = 200, body_text = ''Technology fund. Total Offering Amount $1,000'',
                      json_result = Inl ValueError\<rparr>
            else Inr \<lparr>status_code = 404, body_text = [], json_result = Inl ValueError\<rparr>), int_max_str_digits = 4300\<rparr>" "[]"]
    by (simp add: answers_ok_def)
qed

text \<open>
  Claim C6, as the code has it. The parser never raises. When the URLs cannot be built (the
  identifier is no integer literal, the accession reference no string) it returns the
  all-empty record without a request. A failing request only moves the parser on to the next
  location, and the record is all-empty when no location answers with status 200.
\<close>

theorem parse_form_d_never_raises:
  "(\<exists>info. fst (parse_form_d_filing w reqs cik acc) = Inr info)
   \<and> (\<forall>e. possible_urls (int_max_str_digits w) cik acc = Inl e \<longrightarrow>
          parse_form_d_filing w reqs cik acc = (Inr empty_form_d, reqs))
   \<and> (\<forall>urls. possible_urls (int_max_str_digits w) cik acc = Inr urls
          \<and> (\<forall>k < length urls. \<not> answers_ok w (reqs @ take k urls) (urls ! k)) \<longrightarrow>
          parse_form_d_filing w reqs cik acc = (Inr empty_form_d, reqs @ urls))"
proof -
  have total: "\<exists>info. fst (parse_form_d_filing w reqs cik acc) = Inr info"
    by (auto simp: parse_form_d_filing_def split: prod.splits sum.splits)
  have fmt: "parse_form_d_filing w reqs cik acc = (Inr empty_form_d, reqs)"
    if "possible_urls (int_max_str_digits w) cik acc = Inl e" for e
    using that by (simp add: parse_form_d_filing_def form_d_try_def)
  have fail: "parse_form_d_filing w reqs cik acc = (Inr empty_form_d, reqs @ urls)"
    if "possible_urls (int_max_str_digits w) cik acc = Inr urls"
       "\<forall>k < length urls. \<not> answers_ok w (reqs @ take k urls) (urls ! k)" for urls
  proof -
    have "try_urls w reqs urls empty_form_d_items = (empty_form_d_items, reqs @ urls)"
      by (rule try_urls_all_fail) (use that(2) in blast)
    with that(1) show ?thesis
      by (simp add: parse_form_d_filing_def form_d_try_def empty_form_d_def)
  qed
  from total fmt fail show ?thesis by blast
qed

text \<open>A bad identifier, a bad accession reference, and a network that is down.\<close>

theorem parse_form_d_never_raises_witness:
  "parse_form_d_filing \<lparr>http = (\<lambda>reqs url. Inl RequestException), int_max_str_digits = 4300\<rparr> [] ''not a number'' (PStr ''0001518449-21-000001'')
     = (Inr empty_form_d, [])
   \<and> parse_form_d_filing \<lparr>http = (\<lambda>reqs url. Inl RequestException), int_max_str_digits = 4300\<rparr> [] ''0001518449'' (PInt 7)
     = (Inr empty_form_d, [])
   \<and> parse_form_d_filing \<lparr>http = (\<lambda>reqs url. Inl RequestException), int_max_str_digits = 4300\<rparr> [] ''0001518449'' (PStr ''0001518449-21-000001'')
     = (Inr empty_form_d,
        [''https://www.sec.gov/Archives/edgar/data/1518449/0001518449-21-000001/xslFormDX01/primary_doc.xml'',
         ''https://www.sec.gov/Archives/edgar/data/1518449/0001518449-21-000001/primary_doc.xml'',
         ''https://www.sec.gov/Archives/edgar/data/1518449/0001518449-21-000001.txt''])"
proof -
  have bad_cik: "possible_urls 4300 ''not a number'' (PStr ''0001518449-21-000001'') = Inl ValueError"
    by (simp add: possible_urls_def py_int_def py_strip_def is_space_def is_digit_def)
  have bad_acc: "possible_urls 4300 ''0001518449'' (PInt 7) = Inl AttributeError"
    by (simp add: possible_urls_def py_int_example)
  show ?thesis
    using parse_form_d_never_raises [of "\<lparr>http = (\<lambda>reqs url. Inl RequestException), int_max_str_digits = 4300\<rparr>" "[]" "''not a number''"
        "PStr ''0001518449-21-000001''"]
      parse_form_d_never_raises [of "\<lparr>http = (\<lambda>reqs url. Inl RequestException), int_max_str_digits = 4300\<rparr>" "[]" "''0001518449''" "PInt 7"]
      parse_form_d_never_raises [of "\<lparr>http = (\<lambda>reqs url. Inl RequestException), int_max_str_digits = 4300\<rparr>" "[]" "''0001518449''"
        "PStr ''0001518449-21-000001''"]
    by (simp add: bad_cik bad_acc possible_urls_example answers_ok_def)
qed

text \<open>
  Claim C6 as stated fails: the request for the first location raises, the second location
  answers, and the record returned after that error is not the all-empty one.
\<close>

theorem request_error_counterexample:
  "http \<lparr>http = (\<lambda>reqs url.
       if url = ''https://www.sec.gov/Archives/edgar/data/1518449/0001518449-21-000001/primary_doc.xml''
       then Inr \<lparr>status_code = 200, body_text = ''<industryGroupType>Technology</industryGroupType>'',
                 json_result = Inl ValueError\<rparr>
       else Inl RequestException), int_max_str_digits = 4300\<rparr> []
     ''https://www.sec.gov/Archives/edgar/data/1518449/0001518449-21-000001/xslFormDX01/primary_doc.xml''
     = Inl RequestException
   \<and> fst (parse_form_d_filing
         \<lparr>http = (\<lambda>reqs url.
            if url = ''https://www.sec.gov/Archives/edgar/data/1518449/0001518449-21-000001/primary_doc.xml''
            then Inr \<lparr>status_code = 200, body_text = ''<industryGroupType>Technology</industryGroupType>'',
                      json_result = Inl ValueError\<rparr>
            else Inl RequestException), int_max_str_digits = 4300\<rparr>
         [] ''0001518449'' (PStr ''0001518449-21-000001'')) =
       Inr (PDict [(''industry_category'', PStr ''Technology''), (''business_description'', PNone),
                   (''revenue_range'', PNone), (''offering_amount'', PNone)])
   \<and> Inr (PDict [(''industry_category'', PStr ''Technology''), (''business_description'', PNone),
                   (''revenue_range'', PNone), (''offering_amount'', PNone)]) \<noteq> (Inr empty_form_d :: exn + pyval)"
proof -
  have a: "str_in ''Technology'' ''<industryGroupType>Technology</industryGroupType>''"
    by code_simp
  have b: "search_amount ''<industryGroupType>Technology</industryGroupType>'' = None"
    by code_simp
  show ?thesis
    using a b
    by (simp add: parse_form_d_three [OF possible_urls_example] try_urls_three answers_ok_def
        answer_text_def py_endswith_def suffix_def parse_xml_def detect_industry_def
        empty_form_d_items_def empty_form_d_def del: try_urls.simps)
qed


section \<open>Properties of the searches\<close>





lemma filing_count_dict: "filing_count e = Inr n \<Longrightarrow> \<exists>d. e = PDict d"
  by (cases e) (simp_all add: filing_count_def)

lemma build_result_fields:
  assumes "build_result repr m e = Inr r"
  shows "r_cik r = c_cik m \<and> r_name r = c_name m \<and> r_ticker r = c_ticker m
         \<and> r_company_type r = company_type (extract_comprehensive_industry_info repr e (c_name m))
         \<and> (\<exists>d. e = PDict d)"
  using assms filing_count_dict [of e]
  by (auto simp: build_result_def Let_def split: sum.splits)

lemma company_type_dict:
  "company_type (extract_comprehensive_industry_info repr (PDict d) name) =
     PStr (if truthy (case map_of d ''tickers'' of None \<Rightarrow> PNone | Some v \<Rightarrow> v) then ''public'' else ''private'')"
proof -
  have keep: "company_type (snd (and_then (and_then (and_then (and_then (None, i)
                 (extract_sic repr (PDict d))) (extract_description (PDict d)))
                 (extract_form_d (PDict d))) (name_fallback name))) = company_type i" for i
    by (simp add: snd_and_then extract_sic_keeps extract_description_keeps extract_form_d_keeps
        name_fallback_keeps)
  show ?thesis
    unfolding extract_comprehensive_industry_info_def extract_try_def before_fallback_def
      set_company_type_dict
    by (subst keep) simp
qed

text \<open>
  Claim C8, as the code has it. Every aggregated result is built from a profile that is a
  dictionary, and its company type is the classifier's: public if and only if the profile's
  \<^verbatim>\<open>tickers\<close> are true (a non-empty list), else private. The candidate's own company type is
  never consulted: changing it changes no result. \<^verbatim>\<open>search_by_cik_direct\<close> derives its
  candidate's type by the same rule, from the profile its own request returned.
\<close>

theorem company_type_from_classifier:
  "(\<forall>e r. build_result repr m e = Inr r \<longrightarrow>
      (\<exists>d. e = PDict d
         \<and> r_company_type r =
             PStr (if truthy (case map_of d ''tickers'' of None \<Rightarrow> PNone | Some v \<Rightarrow> v)
                   then ''public'' else ''private'')))
   \<and> (\<forall>e hint. build_result repr (m\<lparr>c_company_type := hint\<rparr>) e = build_result repr m e)
   \<and> (\<forall>c reqs'. search_by_cik_direct w reqs cik = (Inr (Some c), reqs') \<longrightarrow>
        (\<exists>d. fst (make_request w reqs (submissions_url (py_zfill 10 cik))) = Inr (PDict d)
           \<and> c_company_type c =
               (if truthy (case map_of d ''tickers'' of None \<Rightarrow> PNone | Some v \<Rightarrow> v)
                then ''public'' else ''private'')))"
proof -
  have a: "\<exists>d. e = PDict d
         \<and> r_company_type r =
             PStr (if truthy (case map_of d ''tickers'' of None \<Rightarrow> PNone | Some v \<Rightarrow> v)
                   then ''public'' else ''private'')"
    if "build_result repr m e = Inr r" for e r
    using build_result_fields [OF that] by (auto simp: company_type_dict)
  have b: "build_result repr (m\<lparr>c_company_type := hint\<rparr>) e = build_result repr m e" for e hint
    by (auto simp: build_result_def Let_def split: sum.splits)
  have c: "\<exists>d. fst (make_request w reqs (submissions_url (py_zfill 10 cik))) = Inr (PDict d)
           \<and> c_company_type c =
               (if truthy (case map_of d ''tickers'' of None \<Rightarrow> PNone | Some v \<Rightarrow> v)
                then ''public'' else ''private'')"
    if "search_by_cik_direct w reqs cik = (Inr (Some c), reqs')" for c reqs'
  proof (cases "make_request w reqs (submissions_url (py_zfill 10 cik))")
    case (Pair res reqs1)
    show ?thesis
    proof (cases res)
      case (Inl e)
      with Pair that show ?thesis by (simp add: search_by_cik_direct_def)
    next
      case (Inr sd)
      show ?thesis
      proof (cases sd)
        case (PDict d)
        with Pair Inr that show ?thesis
          by (auto simp: search_by_cik_direct_def Let_def split: if_splits sum.splits)
      qed (use Pair Inr that in \<open>auto simp: search_by_cik_direct_def Let_def split: if_splits\<close>)
    qed
  qed
  from a b c show ?thesis by blast
qed

lemma process_matches_from:
  "process_matches repr w reqs ms acc = (Inr results, reqs') \<Longrightarrow>
   \<exists>new. results = acc @ new
     \<and> list_all (\<lambda>r. list_ex (\<lambda>m. r_cik r = c_cik m \<and> r_name r = c_name m \<and> r_ticker r = c_ticker m) ms) new"
proof (induction ms arbitrary: reqs acc)
  case Nil
  then show ?case by simp
next
  case (Cons m ms)
  obtain res reqs1 where g: "get_enhanced_submissions_data w reqs (c_cik m) = (res, reqs1)"
    by (cases "get_enhanced_submissions_data w reqs (c_cik m)")
  show ?case
  proof (cases res)
    case (Inl e)
    with Cons.prems g show ?thesis by simp
  next
    case (Inr ed)
    show ?thesis
    proof (cases "truthy ed")
      case False
      with Cons.prems g Inr have "process_matches repr w reqs1 ms acc = (Inr results, reqs')"
        by simp
      from Cons.IH [OF this] show ?thesis
        by (auto simp: list_all_iff list_ex_iff)
    next
      case True
      show ?thesis
      proof (cases "build_result repr m ed")
        case (Inl e)
        with Cons.prems g Inr True show ?thesis by simp
      next
        case br: (Inr r)
        with Cons.prems g Inr True
        have "process_matches repr w reqs1 ms (acc @ [r]) = (Inr results, reqs')"
          by simp
        from Cons.IH [OF this] obtain new where
          new: "results = (acc @ [r]) @ new"
          "list_all (\<lambda>r. list_ex (\<lambda>m. r_cik r = c_cik m \<and> r_name r = c_name m \<and> r_ticker r = c_ticker m) ms) new"
          by blast
        from build_result_fields [OF br] new show ?thesis
          by (intro exI [of _ "r # new"]) (auto simp: list_all_iff list_ex_iff)
      qed
    qed
  qed
qed

text \<open>
  Claim C10. When the direct search returns a candidate, it is appended after the matches of
  the name search and the loop that fetches profiles runs over the first five entries of the
  combined list. With fewer than five name matches that is the whole combined list, the
  direct candidate last. With five name matches or more it is the first five name matches:
  the direct candidate is not fetched by the loop, and every aggregated result comes from one
  of those name matches.
\<close>

theorem direct_candidate_cut_by_cap:
  assumes "search_public_companies repr w reqs company_name = (Inr ms, reqs1)"
    and "cik \<noteq> []"
    and "search_by_cik_direct w reqs1 cik = (Inr (Some cik_result), reqs2)"
  shows "comprehensive_company_search repr w reqs company_name (Some cik) =
           process_matches repr w reqs2 (take 5 (ms @ [cik_result])) []
         \<and> (length ms < 5 \<longrightarrow> take 5 (ms @ [cik_result]) = ms @ [cik_result])
         \<and> (5 \<le> length ms \<longrightarrow>
               take 5 (ms @ [cik_result]) = take 5 ms
               \<and> (\<forall>results reqs3.
                     comprehensive_company_search repr w reqs company_name (Some cik) = (Inr results, reqs3) \<longrightarrow>
                     list_all (\<lambda>r. list_ex (\<lambda>m. r_cik r = c_cik m \<and> r_name r = c_name m
                                                  \<and> r_ticker r = c_ticker m) (take 5 ms)) results))"
proof -
  have eq: "comprehensive_company_search repr w reqs company_name (Some cik) =
              process_matches repr w reqs2 (take 5 (ms @ [cik_result])) []"
    using assms by (simp add: comprehensive_company_search_def add_cik_result_def)
  have few: "take 5 (ms @ [cik_result]) = ms @ [cik_result]" if "length ms < 5"
    using that by simp
  have many: "take 5 (ms @ [cik_result]) = take 5 ms" if "5 \<le> length ms"
    using that by simp
  have only: "list_all (\<lambda>r. list_ex (\<lambda>m. r_cik r = c_cik m \<and> r_name r = c_name m
                                                  \<and> r_ticker r = c_ticker m) (take 5 ms)) results"
    if "5 \<le> length ms"
      "comprehensive_company_search repr w reqs company_name (Some cik) = (Inr results, reqs3)"
    for results reqs3
    using process_matches_from [of repr w reqs2 "take 5 ms" "[]" results reqs3] that eq many
    by auto
  from eq few many only show ?thesis by blast
qed

subsection \<open>Examples\<close>


lemma replicate_nine: "replicate 9 x = [x, x, x, x, x, x, x, x, x]"
  by (simp add: eval_nat_numeral)

lemma zfill_one: "py_zfill 10 (str_of_int 1) = ''0000000001''"
  by (simp add: py_zfill_def str_of_int_def nat_digits_small digit_char_simps replicate_nine)

lemma lower_acme: "py_lower ''Acme'' = ''acme''" "py_lower ''acme'' = ''acme''" "py_lower ''ACME'' = ''acme''"
  by code_simp+

lemma acme_in: "str_in ''acme'' ''acme''"
  by code_simp

lemma classify_acme: "classify_industry_from_name (PStr ''Acme'') = Inr (''Unknown'', ''low'')"
  by code_simp

lemma zfill_padded: "py_zfill 10 ''0000000001'' = ''0000000001''"
  by (simp add: py_zfill_def)

text \<open>
  Claim C8 as stated fails. The directory lists Acme, so the name search hands out a
  candidate marked public; the profile fetched for it has no tickers, the classifier says
  private, and the aggregated result reports private: the candidate's mark is overridden.
\<close>

theorem company_type_counterexample:
  "fst (search_public_companies (\<lambda>v. [])
         \<lparr>http = (\<lambda>reqs url.
            if url = ''https://www.sec.gov/files/company_tickers.json''
            then Inr \<lparr>status_code = 200, body_text = [],
                      json_result = Inr (PDict [(''0'', PDict [(''cik_str'', PInt 1),
                         (''ticker'', PStr ''ACME''), (''title'', PStr ''Acme'')])])\<rparr>
            else Inr \<lparr>status_code = 200, body_text = [],
                      json_result = Inr (PDict [(''name'', PStr ''Acme''), (''tickers'', PList [])])\<rparr>), int_max_str_digits = 4300\<rparr>
         [] ''acme'') =
     Inr [\<lparr>c_cik = ''0000000001'', c_name = PStr ''Acme'', c_ticker = PStr ''ACME'',
           c_company_type = ''public'', c_submissions_data = None\<rparr>]
   \<and> fst (comprehensive_company_search (\<lambda>v. [])
         \<lparr>http = (\<lambda>reqs url.
            if url = ''https://www.sec.gov/files/company_tickers.json''
            then Inr \<lparr>status_code = 200, body_text = [],
                      json_result = Inr (PDict [(''0'', PDict [(''cik_str'', PInt 1),
                         (''ticker'', PStr ''ACME''), (''title'', PStr ''Acme'')])])\<rparr>
            else Inr \<lparr>status_code = 200, body_text = [],
                      json_result = Inr (PDict [(''name'', PStr ''Acme''), (''tickers'', PList [])])\<rparr>), int_max_str_digits = 4300\<rparr>
         [] ''acme'' None) =
     Inr [\<lparr>r_cik = ''0000000001'', r_name = PStr ''Acme'', r_ticker = PStr ''ACME'',
           r_company_type = PStr ''private'', r_sic_code = PNone, r_sic_description = PNone,
           r_business_description = PNone, r_industry_category = PStr ''Unknown'',
           r_form_d_info = PNone, r_data_source = ''name_classification'', r_filing_count = 0\<rparr>]"
  by (simp add: comprehensive_company_search_def add_cik_result_def search_public_companies_def
      make_request_def tickers_url_def submissions_url_def py_items_def match_company_def
      py_lower_val_def lower_acme acme_in zfill_one zfill_padded
      get_enhanced_submissions_data_def attach_form_d_def build_result_def filing_count_def
      extract_comprehensive_industry_info_def extract_try_def before_fallback_def
      set_company_type_def extract_sic_def extract_description_def extract_form_d_def
      name_fallback_def classify_acme initial_info_def)


lemma zfill_small:
  "py_zfill 10 (str_of_int 2) = ''0000000002''" "py_zfill 10 (str_of_int 3) = ''0000000003''"
  "py_zfill 10 (str_of_int 4) = ''0000000004''" "py_zfill 10 (str_of_int 5) = ''0000000005''"
  "py_zfill 10 ''7'' = ''0000000007''"
  "py_zfill 10 ''0000000002'' = ''0000000002''" "py_zfill 10 ''0000000003'' = ''0000000003''"
  "py_zfill 10 ''0000000004'' = ''0000000004''" "py_zfill 10 ''0000000005'' = ''0000000005''"
  "py_zfill 10 ''0000000007'' = ''0000000007''"
  by (simp_all add: py_zfill_def str_of_int_def nat_digits_small digit_char_simps replicate_nine)

text \<open>A candidate marked public over a profile without tickers is reported private.\<close>

theorem company_type_from_classifier_witness:
  "\<exists>r. build_result (\<lambda>v. [])
         \<lparr>c_cik = ''0000000001'', c_name = PStr ''Acme'', c_ticker = PStr ''ACME'',
          c_company_type = ''public'', c_submissions_data = None\<rparr>
         (PDict [(''name'', PStr ''Acme''), (''tickers'', PList [])]) = Inr r
       \<and> r_company_type r = PStr ''private''"
proof -
  have "\<exists>r. build_result (\<lambda>v. [])
         \<lparr>c_cik = ''0000000001'', c_name = PStr ''Acme'', c_ticker = PStr ''ACME'',
          c_company_type = ''public'', c_submissions_data = None\<rparr>
         (PDict [(''name'', PStr ''Acme''), (''tickers'', PList [])]) = Inr r"
    by (simp add: build_result_def filing_count_def Let_def)
  then show ?thesis
    using company_type_from_classifier [of "\<lambda>v. []"
        "\<lparr>c_cik = ''0000000001'', c_name = PStr ''Acme'', c_ticker = PStr ''ACME'',
          c_company_type = ''public'', c_submissions_data = None\<rparr>"]
    by fastforce
qed

text \<open>
  Two examples for the cap. The profile service knows the identifier 7 only, a company named
  Hexify; the directory holds one company named Acme in the first example and five in the
  second.
\<close>

lemma classify_hexify: "classify_industry_from_name (PStr ''Hexify'') = Inr (''Unknown'', ''low'')"
  by code_simp

lemma example_one_name_search:
  "search_public_companies (\<lambda>v. [])
         \<lparr>http = (\<lambda>reqs url.
            if url = ''https://www.sec.gov/files/company_tickers.json''
            then Inr \<lparr>status_code = 200, body_text = [],
                      json_result = Inr (PDict
                        [(''0'', PDict [(''cik_str'', PInt 1), (''ticker'', PStr ''ACME''), (''title'', PStr ''Acme'')])])\<rparr>
            else if url = ''https://data.sec.gov/submissions/CIK0000000007.json''
            then Inr \<lparr>status_code = 200, body_text = [],
                      json_result = Inr (PDict [(''name'', PStr ''Hexify''), (''tickers'', PList [])])\<rparr>
            else Inl RequestException), int_max_str_digits = 4300\<rparr>
         [] ''acme'' =
     (Inr [\<lparr>c_cik = ''0000000001'', c_name = PStr ''Acme'', c_ticker = PStr ''ACME'',
            c_company_type = ''public'', c_submissions_data = None\<rparr>], [''https://www.sec.gov/files/company_tickers.json''])"
  by (simp add: search_public_companies_def make_request_def tickers_url_def py_items_def
      match_company_def py_lower_val_def lower_acme acme_in zfill_one)

lemma example_one_direct_search:
  "search_by_cik_direct
         \<lparr>http = (\<lambda>reqs url.
            if url = ''https://www.sec.gov/files/company_tickers.json''
            then Inr \<lparr>status_code = 200, body_text = [],
                      json_result = Inr (PDict
                        [(''0'', PDict [(''cik_str'', PInt 1), (''ticker'', PStr ''ACME''), (''title'', PStr ''Acme'')])])\<rparr>
            else if url = ''https://data.sec.gov/submissions/CIK0000000007.json''
            then Inr \<lparr>status_code = 200, body_text = [],
                      json_result = Inr (PDict [(''name'', PStr ''Hexify''), (''tickers'', PList [])])\<rparr>
            else Inl RequestException), int_max_str_digits = 4300\<rparr>
         [''https://www.sec.gov/files/company_tickers.json''] ''7'' =
     (Inr (Some \<lparr>c_cik = ''0000000007'', c_name = PStr ''Hexify'', c_ticker = PStr [],
            c_company_type = ''private'',
            c_submissions_data = Some (PDict [(''name'', PStr ''Hexify''), (''tickers'', PList [])])\<rparr>), [''https://www.sec.gov/files/company_tickers.json'',
        ''https://data.sec.gov/submissions/CIK0000000007.json''])"
  by (simp add: search_by_cik_direct_def make_request_def submissions_url_def zfill_small)

lemma example_name_search:
  "search_public_companies (\<lambda>v. [])
         \<lparr>http = (\<lambda>reqs url.
            if url = ''https://www.sec.gov/files/company_tickers.json''
            then Inr \<lparr>status_code = 200, body_text = [],
                      json_result = Inr (PDict
                        [(''0'', PDict [(''cik_str'', PInt 1), (''ticker'', PStr ''ACME''), (''title'', PStr ''Acme'')]),
                         (''1'', PDict [(''cik_str'', PInt 2), (''ticker'', PStr ''ACME''), (''title'', PStr ''Acme'')]),
                         (''2'', PDict [(''cik_str'', PInt 3), (''ticker'', PStr ''ACME''), (''title'', PStr ''Acme'')]),
                         (''3'', PDict [(''cik_str'', PInt 4), (''ticker'', PStr ''ACME''), (''title'', PStr ''Acme'')]),
                         (''4'', PDict [(''cik_str'', PInt 5), (''ticker'', PStr ''ACME''), (''title'', PStr ''Acme'')])])\<rparr>
            else if url = ''https://data.sec.gov/submissions/CIK0000000007.json''
            then Inr \<lparr>status_code = 200, body_text = [],
                      json_result = Inr (PDict [(''name'', PStr ''Hexify''), (''tickers'', PList [])])\<rparr>
            else Inl RequestException), int_max_str_digits = 4300\<rparr>
         [] ''acme'' =
     (Inr [\<lparr>c_cik = ''0000000001'', c_name = PStr ''Acme'', c_ticker = PStr ''ACME'',
            c_company_type = ''public'', c_submissions_data = None\<rparr>,
          \<lparr>c_cik = ''0000000002'', c_name = PStr ''Acme'', c_ticker = PStr ''ACME'',
            c_company_type = ''public'', c_submissions_data = None\<rparr>,
          \<lparr>c_cik = ''0000000003'', c_name = PStr ''Acme'', c_ticker = PStr ''ACME'',
            c_company_type = ''public'', c_submissions_data = None\<rparr>,
          \<lparr>c_cik = ''0000000004'', c_name = PStr ''Acme'', c_ticker = PStr ''ACME'',
            c_company_type = ''public'', c_submissions_data = None\<rparr>,
          \<lparr>c_cik = ''0000000005'', c_name = PStr ''Acme'', c_ticker = PStr ''ACME'',
            c_company_type = ''public'', c_submissions_data = None\<rparr>], [''https://www.sec.gov/files/company_tickers.json''])"
  by (simp add: search_public_companies_def make_request_def tickers_url_def py_items_def
      match_company_def py_lower_val_def lower_acme acme_in zfill_one zfill_small)

lemma example_direct_search:
  "search_by_cik_direct
         \<lparr>http = (\<lambda>reqs url.
            if url = ''https://www.sec.gov/files/company_tickers.json''
            then Inr \<lparr>status_code = 200, body_text = [],
                      json_result = Inr (PDict
                        [(''0'', PDict [(''cik_str'', PInt 1), (''ticker'', PStr ''ACME''), (''title'', PStr ''Acme'')]),
                         (''1'', PDict [(''cik_str'', PInt 2), (''ticker'', PStr ''ACME''), (''title'', PStr ''Acme'')]),
                         (''2'', PDict [(''cik_str'', PInt 3), (''ticker'', PStr ''ACME''), (''title'', PStr ''Acme'')]),
                         (''3'', PDict [(''cik_str'', PInt 4), (''ticker'', PStr ''ACME''), (''title'', PStr ''Acme'')]),
                         (''4'', PDict [(''cik_str'', PInt 5), (''ticker'', PStr ''ACME''), (''title'', PStr ''Acme'')])])\<rparr>
            else if url = ''https://data.sec.gov/submissions/CIK0000000007.json''
            then Inr \<lparr>status_code = 200, body_text = [],
                      json_result = Inr (PDict [(''name'', PStr ''Hexify''), (''tickers'', PList [])])\<rparr>
            else Inl RequestException), int_max_str_digits = 4300\<rparr>
         [''https://www.sec.gov/files/company_tickers.json''] ''7'' =
     (Inr (Some \<lparr>c_cik = ''0000000007'', c_name = PStr ''Hexify'', c_ticker = PStr [],
            c_company_type = ''private'',
            c_submissions_data = Some (PDict [(''name'', PStr ''Hexify''), (''tickers'', PList [])])\<rparr>), [''https://www.sec.gov/files/company_tickers.json'',
        ''https://data.sec.gov/submissions/CIK0000000007.json''])"
  by (simp add: search_by_cik_direct_def make_request_def submissions_url_def zfill_small)

text \<open>
  With one name match the direct candidate is fetched by the loop (the request for its
  profile is made a second time) and reported. With five name matches the direct search still
  finds its candidate (the second request), but the loop does not fetch the profile of
  identifier 7 again and no result is reported for it.
\<close>

theorem direct_candidate_cut_by_cap_witness:
  "comprehensive_company_search (\<lambda>v. [])
         \<lparr>http = (\<lambda>reqs url.
            if url = ''https://www.sec.gov/files/company_tickers.json''
            then Inr \<lparr>status_code = 200, body_text = [],
                      json_result = Inr (PDict
                        [(''0'', PDict [(''cik_str'', PInt 1), (''ticker'', PStr ''ACME''), (''title'', PStr ''Acme'')])])\<rparr>
            else if url = ''https://data.sec.gov/submissions/CIK0000000007.json''
            then Inr \<lparr>status_code = 200, body_text = [],
                      json_result = Inr (PDict [(''name'', PStr ''Hexify''), (''tickers'', PList [])])\<rparr>
            else Inl RequestException), int_max_str_digits = 4300\<rparr>
         [] ''acme'' (Some ''7'') =
     (Inr [\<lparr>r_cik = ''0000000007'', r_name = PStr ''Hexify'', r_ticker = PStr [],
            r_company_type = PStr ''private'', r_sic_code = PNone, r_sic_description = PNone,
            r_business_description = PNone, r_industry_category = PStr ''Unknown'',
            r_form_d_info = PNone, r_data_source = ''name_classification'', r_filing_count = 0\<rparr>],
      [''https://www.sec.gov/files/company_tickers.json'',
       ''https://data.sec.gov/submissions/CIK0000000007.json'',
       ''https://data.sec.gov/submissions/CIK0000000001.json'',
       ''https://data.sec.gov/submissions/CIK0000000007.json''])
   \<and> comprehensive_company_search (\<lambda>v. [])
         \<lparr>http = (\<lambda>reqs url.
            if url = ''https://www.sec.gov/files/company_tickers.json''
            then Inr \<lparr>status_code = 200, body_text = [],
                      json_result = Inr (PDict
                        [(''0'', PDict [(''cik_str'', PInt 1), (''ticker'', PStr ''ACME''), (''title'', PStr ''Acme'')]),
                         (''1'', PDict [(''cik_str'', PInt 2), (''ticker'', PStr ''ACME''), (''title'', PStr ''Acme'')]),
                         (''2'', PDict [(''cik_str'', PInt 3), (''ticker'', PStr ''ACME''), (''title'', PStr ''Acme'')]),
                         (''3'', PDict [(''cik_str'', PInt 4), (''ticker'', PStr ''ACME''), (''title'', PStr ''Acme'')]),
                         (''4'', PDict [(''cik_str'', PInt 5), (''ticker'', PStr ''ACME''), (''title'', PStr ''Acme'')])])\<rparr>
            else if url = ''https://data.sec.gov/submissions/CIK0000000007.json''
            then Inr \<lparr>status_code = 200, body_text = [],
                      json_result = Inr (PDict [(''name'', PStr ''Hexify''), (''tickers'', PList [])])\<rparr>
            else Inl RequestException), int_max_str_digits = 4300\<rparr>
         [] ''acme'' (Some ''7'') =
     (Inr [],
      [''https://www.sec.gov/files/company_tickers.json'',
       ''https://data.sec.gov/submissions/CIK0000000007.json'',
       ''https://data.sec.gov/submissions/CIK0000000001.json'', ''https://data.sec.gov/submissions/CIK0000000002.json'', ''https://data.sec.gov/submissions/CIK0000000003.json'', ''https://data.sec.gov/submissions/CIK0000000004.json'', ''https://data.sec.gov/submissions/CIK0000000005.json''])"
proof -
  have ne: "''7'' \<noteq> []"
    by simp
  show ?thesis
    using direct_candidate_cut_by_cap [OF example_one_name_search ne example_one_direct_search]
      direct_candidate_cut_by_cap [OF example_name_search ne example_direct_search]
    by (simp add: get_enhanced_submissions_data_def attach_form_d_def make_request_def
        submissions_url_def zfill_padded zfill_small build_result_def filing_count_def
        extract_comprehensive_industry_info_def extract_try_def before_fallback_def
        set_company_type_def extract_sic_def extract_description_def extract_form_d_def
        name_fallback_def classify_hexify initial_info_def)
qed

end
